theory Spec2Isabelle
  imports Main
begin

section \<open>Data of the command line (pkg/config, as used by cmd/main.go)\<close>

text \<open>
  A \<open>net.IP\<close> value. The program only formats it (\<open>host.String()\<close>); an IPv4 address
  is kept as its four bytes, any other address by the text \<open>String()\<close> gives for it.
  \<open>IPnil\<close> is Go's nil slice, the zero value of the field.
\<close>

datatype IP = IPv4 nat nat nat nat | IPtext string | IPnil

text \<open>
  \<open>config.Options\<close>: the fields \<open>cmd/main.go\<close> binds flags to and reads. A
  \<open>time.Duration\<close> is a number of nanoseconds.
\<close>

record Options =
  KubeConfig :: string
  IsDebug :: bool
  Threadiness :: int
  RecheckInterval :: int
  MetricHost :: IP
  MetricPort :: int
  DefaultFloatingNetwork :: string
  DefaultFloatingSubnet :: string
  ConfigPath :: string

definition Nanosecond :: int where "Nanosecond = 1"
definition Second :: int where "Second = 1000000000 * Nanosecond"
definition Minute :: int where "Minute = 60 * Second"

section \<open>The process: main, ServeMetrics and their goroutines\<close>

subsection \<open>Formatting the listen address\<close>

definition digit :: "nat \<Rightarrow> char" where
  "digit d = ''0123456789'' ! d"

fun show_nat :: "nat \<Rightarrow> string" where
  "show_nat n = (if n < 10 then [digit n] else show_nat (n div 10) @ [digit (n mod 10)])"

declare show_nat.simps [simp del]

definition show_int :: "int \<Rightarrow> string" where
  "show_int i = (if i < 0 then CHR ''-'' # show_nat (nat (- i)) else show_nat (nat i))"

fun IP_String :: "IP \<Rightarrow> string" where
  "IP_String (IPv4 a b c d) =
     show_nat a @ ''.'' @ show_nat b @ ''.'' @ show_nat c @ ''.'' @ show_nat d"
| "IP_String (IPtext t) = t"
| "IP_String IPnil = ''<nil>''"

text \<open>\<open>fmt.Sprintf("%s:%d", host.String(), port)\<close> (ServeMetrics, line 63).\<close>

definition metrics_addr :: "IP \<Rightarrow> int \<Rightarrow> string" where
  "metrics_addr host port = IP_String host @ '':'' @ show_int port"

subsection \<open>Logging\<close>

datatype log_level = LevelDebug | LevelInfo | LevelWarn | LevelError

datatype level_option = AllowInfo | AllowDebug

fun allowed :: "level_option \<Rightarrow> log_level \<Rightarrow> bool" where
  "allowed AllowDebug l = True"
| "allowed AllowInfo l = (l \<noteq> LevelDebug)"

text \<open>A log line: its level, its message and the error it carries, if any.\<close>

datatype log_entry = LogLine log_level string "string option"

subsection \<open>The HTTP server of ServeMetrics\<close>

datatype handler = PromHandler | DefaultServeMux

record http_server =
  ReadHeaderTimeout :: int
  Handler :: "handler option"

text \<open>Lines 81 to 84: the server literal and the assignment of \<open>promhttp.Handler()\<close>.\<close>

definition metrics_server :: http_server where
  "metrics_server = \<lparr>ReadHeaderTimeout = 5 * Second, Handler = Some PromHandler\<rparr>"

text \<open>
  \<open>net/http\<close> hands every request of a server to the server's \<open>Handler\<close>, whatever
  its path, and to the default mux when the field is nil.
\<close>

fun serves :: "http_server \<Rightarrow> string \<Rightarrow> handler" where
  "serves srv path = (case Handler srv of None \<Rightarrow> DefaultServeMux | Some h \<Rightarrow> h)"

subsection \<open>State and environment\<close>

datatype signal = SIGINT | SIGTERM

datatype exit_status = Exit0 | Killed signal

datatype main_pc =
    M_Init | M_New | M_LogFatal | M_GoRun | M_GoMetrics | M_RecvSig | M_LogShutdown
  | M_WgWait | M_CloseStop | M_Return | M_Done

datatype metrics_pc =
    S_NotSpawned | S_Entry | S_Listen | S_LogServing | S_GoServe | S_RecvStop
  | S_CloseListener | S_WgDone | S_Returned

datatype serve_pc = H_NotSpawned | H_Entry | H_Serving | H_Returned

datatype run_pc = R_NotSpawned | R_Running | R_Stopped

text \<open>
  What the program cannot decide: the parsed options, the error \<open>controller.New\<close>
  returns (\<open>None\<close> for nil), the errors of \<open>net.Listen\<close> on an address and of
  closing the listener, and the error \<open>Serve\<close> returns with.
\<close>

record env =
  opts :: Options
  New_error :: "string option"
  Listen_error :: "string \<Rightarrow> string option"
  Close_error :: "string option"
  Serve_error :: string

record state =
  main_pc :: main_pc
  run_pc :: run_pc
  metrics_pc :: metrics_pc
  serve_pc :: serve_pc
  notified :: bool
  sigs :: "signal list"
  stop_closed :: bool
  wg :: int
  listener :: "string option"
  server :: "http_server option"
  logs :: "log_entry list"
  exited :: "exit_status option"
  registry :: "string list"

definition init_state :: "string list \<Rightarrow> state" where
  "init_state r =
     \<lparr>main_pc = M_Init, run_pc = R_NotSpawned, metrics_pc = S_NotSpawned,
      serve_pc = H_NotSpawned, notified = False, sigs = [], stop_closed = False, wg = 0,
      listener = None, server = None, logs = [], exited = None, registry = r\<rparr>"

text \<open>Lines 65 to 68 of main: the filter lets debug lines through only with \<open>--debug\<close>.\<close>

definition logLevel :: "env \<Rightarrow> level_option" where
  "logLevel e = (if IsDebug (opts e) then AllowDebug else AllowInfo)"

definition emit :: "env \<Rightarrow> log_level \<Rightarrow> string \<Rightarrow> string option \<Rightarrow> state \<Rightarrow> state" where
  "emit e l msg err s =
     (if allowed (logLevel e) l then s\<lparr>logs := logs s @ [LogLine l msg err]\<rparr> else s)"

subsection \<open>main (cmd/main.go, lines 55 to 89), after \<open>kingpin.Parse\<close>\<close>

text \<open>
  One step of the main goroutine; \<open>None\<close> when it is blocked or has returned.
  \<open>M_Init\<close> is lines 58 to 72 (the channels, the deferred close, \<open>signal.Notify\<close>,
  the wait group, the logger), \<open>M_CloseStop\<close> the deferred \<open>close(stop)\<close>, and
  \<open>M_Return\<close> the return of main, which ends the process.
\<close>

fun step_main :: "env \<Rightarrow> state \<Rightarrow> state option" where
  "step_main e s =
     (case main_pc s of
        M_Init \<Rightarrow> Some (s\<lparr>notified := True, main_pc := M_New\<rparr>)
      | M_New \<Rightarrow>
          (case New_error e of
             Some err \<Rightarrow> Some (s\<lparr>main_pc := M_LogFatal\<rparr>)
           | None \<Rightarrow> Some (s\<lparr>main_pc := M_GoRun\<rparr>))
      | M_LogFatal \<Rightarrow>
          Some ((emit e LevelError ''fatal error starting the controller'' (New_error e) s)
                 \<lparr>main_pc := M_CloseStop\<rparr>)
      | M_GoRun \<Rightarrow> Some (s\<lparr>run_pc := R_Running, main_pc := M_GoMetrics\<rparr>)
      | M_GoMetrics \<Rightarrow> Some (s\<lparr>metrics_pc := S_Entry, main_pc := M_RecvSig\<rparr>)
      | M_RecvSig \<Rightarrow>
          (case sigs s of
             [] \<Rightarrow> None
           | x # xs \<Rightarrow> Some (s\<lparr>sigs := xs, main_pc := M_LogShutdown\<rparr>))
      | M_LogShutdown \<Rightarrow>
          Some ((emit e LevelInfo ''shutting down'' None s)\<lparr>main_pc := M_WgWait\<rparr>)
      | M_WgWait \<Rightarrow> (if wg s = 0 then Some (s\<lparr>main_pc := M_CloseStop\<rparr>) else None)
      | M_CloseStop \<Rightarrow> Some (s\<lparr>stop_closed := True, main_pc := M_Return\<rparr>)
      | M_Return \<Rightarrow> Some (s\<lparr>main_pc := M_Done, exited := Some Exit0\<rparr>)
      | M_Done \<Rightarrow> None)"

subsection \<open>ServeMetrics (pkg/metrics, lines 57 to 95)\<close>

text \<open>
  One step of the goroutine running ServeMetrics. \<open>S_Entry\<close> is \<open>wg.Add(1)\<close> with the
  deferred \<open>wg.Done()\<close>; \<open>S_Listen\<close> is lines 63 to 69; \<open>S_RecvStop\<close> is the receive
  of line 94; the two deferred calls run last, the listener's close first.
\<close>

fun step_metrics :: "env \<Rightarrow> state \<Rightarrow> state option" where
  "step_metrics e s =
     (case metrics_pc s of
        S_NotSpawned \<Rightarrow> None
      | S_Entry \<Rightarrow> Some (s\<lparr>wg := wg s + 1, metrics_pc := S_Listen\<rparr>)
      | S_Listen \<Rightarrow>
          (case Listen_error e (metrics_addr (MetricHost (opts e)) (MetricPort (opts e))) of
             Some err \<Rightarrow>
               Some ((emit e LevelError ''failed serve prometheus metrics'' (Some err) s)
                      \<lparr>metrics_pc := S_WgDone\<rparr>)
           | None \<Rightarrow>
               Some (s\<lparr>listener :=
                          Some (metrics_addr (MetricHost (opts e)) (MetricPort (opts e))),
                        metrics_pc := S_LogServing\<rparr>))
      | S_LogServing \<Rightarrow>
          Some ((emit e LevelInfo ''serving prometheus metrics'' None s)
                 \<lparr>metrics_pc := S_GoServe\<rparr>)
      | S_GoServe \<Rightarrow> Some (s\<lparr>serve_pc := H_Entry, metrics_pc := S_RecvStop\<rparr>)
      | S_RecvStop \<Rightarrow>
          (if stop_closed s then Some (s\<lparr>metrics_pc := S_CloseListener\<rparr>) else None)
      | S_CloseListener \<Rightarrow>
          (case Close_error e of
             Some err \<Rightarrow>
               Some ((emit e LevelError ''failed to close listener'' (Some err) s)
                      \<lparr>listener := None, metrics_pc := S_WgDone\<rparr>)
           | None \<Rightarrow> Some (s\<lparr>listener := None, metrics_pc := S_WgDone\<rparr>))
      | S_WgDone \<Rightarrow> Some (s\<lparr>wg := wg s - 1, metrics_pc := S_Returned\<rparr>)
      | S_Returned \<Rightarrow> None)"

text \<open>
  The goroutine of lines 80 to 93: it builds the server and serves on the listener;
  \<open>Serve\<close> returns, with an error that is logged, once the listener is closed.
\<close>

fun step_serve :: "env \<Rightarrow> state \<Rightarrow> state option" where
  "step_serve e s =
     (case serve_pc s of
        H_NotSpawned \<Rightarrow> None
      | H_Entry \<Rightarrow> Some (s\<lparr>server := Some metrics_server, serve_pc := H_Serving\<rparr>)
      | H_Serving \<Rightarrow>
          (case listener s of
             Some a \<Rightarrow> None
           | None \<Rightarrow>
               Some ((emit e LevelError ''failed to serve prometheus metrics''
                        (Some (Serve_error e)) s)
                      \<lparr>serve_pc := H_Returned\<rparr>))
      | H_Returned \<Rightarrow> None)"

text \<open>
  \<open>Controller.Run\<close> (pkg/controller, src/Makefile lines 228 to 262), as far as the
  process sees it: it is given the stop channel only, never the wait group, it never
  closes the channel, and it returns only after the receive from \<open>stopCh\<close> (line 260,
  or the cache sync that the closed channel ends, line 237).
\<close>

fun step_run :: "env \<Rightarrow> state \<Rightarrow> state option" where
  "step_run e s =
     (case run_pc s of
        R_NotSpawned \<Rightarrow> None
      | R_Running \<Rightarrow> (if stop_closed s then Some (s\<lparr>run_pc := R_Stopped\<rparr>) else None)
      | R_Stopped \<Rightarrow> None)"

text \<open>
  A signal reaches the process. Once \<open>signal.Notify\<close> has run, it is sent to the
  channel of capacity one without blocking, so it is dropped when the buffer is full;
  before that, the default action ends the process.
\<close>

fun deliver :: "signal \<Rightarrow> state \<Rightarrow> state option" where
  "deliver sg s =
     (if notified s
      then (case sigs s of [] \<Rightarrow> Some (s\<lparr>sigs := [sg]\<rparr>) | x # xs \<Rightarrow> Some s)
      else Some (s\<lparr>exited := Some (Killed sg)\<rparr>))"

subsection \<open>Interleavings\<close>

datatype action = StepMain | StepRun | StepMetrics | StepServe | Deliver signal

text \<open>Nothing moves once the process has ended.\<close>

fun step :: "env \<Rightarrow> action \<Rightarrow> state \<Rightarrow> state option" where
  "step e a s =
     (case exited s of
        Some x \<Rightarrow> None
      | None \<Rightarrow>
          (case a of
             StepMain \<Rightarrow> step_main e s
           | StepRun \<Rightarrow> step_run e s
           | StepMetrics \<Rightarrow> step_metrics e s
           | StepServe \<Rightarrow> step_serve e s
           | Deliver sg \<Rightarrow> deliver sg s))"

text \<open>A schedule picks who moves next; a pick that cannot move leaves the state.\<close>

definition exec :: "env \<Rightarrow> state \<Rightarrow> action \<Rightarrow> state" where
  "exec e s a = (case step e a s of None \<Rightarrow> s | Some s' \<Rightarrow> s')"

definition run :: "env \<Rightarrow> action list \<Rightarrow> state \<Rightarrow> state" where
  "run e as s = foldl (exec e) s as"

subsection \<open>Invariants and example inputs\<close>

text \<open>What holds all along an execution in which \<open>controller.New\<close> failed with \<open>err\<close>.\<close>

definition failed_start :: "string \<Rightarrow> state \<Rightarrow> bool" where
  "failed_start err s =
     (run_pc s = R_NotSpawned \<and> metrics_pc s = S_NotSpawned \<and>
      (case main_pc s of
         M_Init \<Rightarrow> True
       | M_New \<Rightarrow> True
       | M_LogFatal \<Rightarrow> True
       | M_CloseStop \<Rightarrow>
           LogLine LevelError ''fatal error starting the controller'' (Some err) \<in> set (logs s)
       | M_Return \<Rightarrow>
           LogLine LevelError ''fatal error starting the controller'' (Some err) \<in> set (logs s)
       | M_Done \<Rightarrow>
           LogLine LevelError ''fatal error starting the controller'' (Some err) \<in> set (logs s) \<and>
           exited s = Some Exit0
       | _ \<Rightarrow> False))"

definition example_opts :: Options where
  "example_opts =
     \<lparr>KubeConfig = '''', IsDebug = False, Threadiness = 1, RecheckInterval = 10 * Minute,
      MetricHost = IPv4 0 0 0 0, MetricPort = 9091, DefaultFloatingNetwork = ''net'',
      DefaultFloatingSubnet = ''sub'', ConfigPath = ''/etc/fip/config.yaml''\<rparr>"

definition example_env :: env where
  "example_env =
     \<lparr>opts = example_opts, New_error = None, Listen_error = (\<lambda>a. None), Close_error = None,
      Serve_error = ''accept: use of closed network connection''\<rparr>"

text \<open>Main has been started on its way to \<open>wg.Wait()\<close> and has not yet returned from it.\<close>

fun awaiting :: "main_pc \<Rightarrow> bool" where
  "awaiting M_RecvSig = True"
| "awaiting M_LogShutdown = True"
| "awaiting M_WgWait = True"
| "awaiting pc = False"

text \<open>ServeMetrics is between its \<open>wg.Add(1)\<close> and its deferred \<open>wg.Done()\<close>.\<close>

fun holds_wg :: "metrics_pc \<Rightarrow> bool" where
  "holds_wg S_NotSpawned = False"
| "holds_wg S_Entry = False"
| "holds_wg S_Returned = False"
| "holds_wg pc = True"

text \<open>Main is past the two \<open>go\<close> statements.\<close>

fun spawned_by :: "main_pc \<Rightarrow> bool" where
  "spawned_by M_Init = False"
| "spawned_by M_New = False"
| "spawned_by M_LogFatal = False"
| "spawned_by M_GoRun = False"
| "spawned_by M_GoMetrics = False"
| "spawned_by pc = True"

text \<open>What holds all along any execution.\<close>

definition consistent :: "state \<Rightarrow> bool" where
  "consistent s =
     (wg s = (if holds_wg (metrics_pc s) then 1 else 0) \<and>
      stop_closed s = (main_pc s = M_Return \<or> main_pc s = M_Done) \<and>
      notified s = (main_pc s \<noteq> M_Init) \<and>
      (main_pc s = M_Init \<or>
       exited s = (if main_pc s = M_Done then Some Exit0 else None)) \<and>
      (metrics_pc s = S_NotSpawned \<or> spawned_by (main_pc s)))"

text \<open>ServeMetrics waits for the stop channel while main has yet to pass \<open>wg.Wait()\<close>.\<close>

definition stuck :: "state \<Rightarrow> bool" where
  "stuck s =
     (metrics_pc s = S_RecvStop \<and> awaiting (main_pc s) \<and> wg s = 1 \<and>
      \<not> stop_closed s \<and> notified s \<and> exited s = None)"

text \<open>
  A usual start: main runs up to the receive from \<open>sigs\<close>, ServeMetrics up to the
  receive from \<open>stop\<close>, and the server goroutine starts serving.
\<close>

definition boot :: "action list" where
  "boot = [StepMain, StepMain, StepMain, StepMain,
           StepMetrics, StepMetrics, StepMetrics, StepMetrics, StepServe]"

text \<open>The state after that start, a signal, and main's next two steps.\<close>

definition after_signal :: "signal \<Rightarrow> state" where
  "after_signal sg =
     run example_env (boot @ [Deliver sg, StepMain, StepMain]) (init_state [])"

text \<open>
  A signal that arrives before the ServeMetrics goroutine has run its first statement:
  main passes \<open>wg.Wait()\<close> on a counter still at zero, then ServeMetrics runs up to
  its receive from \<open>stop\<close>.
\<close>

definition racy :: "action list" where
  "racy = [StepMain, StepMain, StepMain, StepMain, Deliver SIGTERM, StepMain, StepMain,
           StepMain, StepMetrics, StepMetrics, StepMetrics, StepMetrics]"

text \<open>What holds all along an execution in which \<open>net.Listen\<close> fails.\<close>

fun unserved :: "metrics_pc \<Rightarrow> bool" where
  "unserved S_LogServing = False"
| "unserved S_GoServe = False"
| "unserved S_RecvStop = False"
| "unserved S_CloseListener = False"
| "unserved pc = True"

definition no_listener :: "state \<Rightarrow> bool" where
  "no_listener s =
     (serve_pc s = H_NotSpawned \<and> server s = None \<and> listener s = None \<and>
      unserved (metrics_pc s))"

text \<open>What holds of the server and the listener all along any execution.\<close>

definition served_as_built :: "env \<Rightarrow> state \<Rightarrow> bool" where
  "served_as_built e s =
     ((case server s of None \<Rightarrow> True | Some srv \<Rightarrow> srv = metrics_server) \<and>
      (case listener s of
         None \<Rightarrow> True
       | Some a \<Rightarrow> a = metrics_addr (MetricHost (opts e)) (MetricPort (opts e))))"

section \<open>The metrics package: counters and registry (pkg/metrics, lines 16 to 54)\<close>

text \<open>
  \<open>prometheus.CounterOpts\<close>, with the fields the package sets; \<open>Subsystem\<close> is left
  at its zero value.
\<close>

record CounterOpts =
  Namespace :: string
  Subsystem :: string
  Name :: string
  Help :: string

definition metricNamespace :: string where
  "metricNamespace = ''kube_fip_controller''"

text \<open>The four package variables (lines 18 to 45), each by the options it is created from.\<close>

definition MetricErrorAssociateInstanceAndFIP :: CounterOpts where
  "MetricErrorAssociateInstanceAndFIP =
     \<lparr>Namespace = metricNamespace, Subsystem = '''',
      Name = ''associate_instance_fip_errors_total'',
      Help = ''Counter for associating instance and FIP errors.''\<rparr>"

definition MetricErrorCreateFIP :: CounterOpts where
  "MetricErrorCreateFIP =
     \<lparr>Namespace = metricNamespace, Subsystem = '''',
      Name = ''create_fip_errors_total'',
      Help = ''Counter for creating FIP errors.''\<rparr>"

definition MetricSuccessfulOperations :: CounterOpts where
  "MetricSuccessfulOperations =
     \<lparr>Namespace = metricNamespace, Subsystem = '''',
      Name = ''successful_operations_total'',
      Help = ''Counter for successful operations.''\<rparr>"

definition MetricFailedOperations :: CounterOpts where
  "MetricFailedOperations =
     \<lparr>Namespace = metricNamespace, Subsystem = '''',
      Name = ''failed_operations_total'',
      Help = ''Counter for failed operations.''\<rparr>"

text \<open>\<open>prometheus.BuildFQName\<close>: the non-empty parts joined by an underscore.\<close>

fun join_underscore :: "string list \<Rightarrow> string" where
  "join_underscore [] = ''''"
| "join_underscore [x] = x"
| "join_underscore (x # y # ys) = x @ ''_'' @ join_underscore (y # ys)"

definition BuildFQName :: "string \<Rightarrow> string \<Rightarrow> string \<Rightarrow> string" where
  "BuildFQName namespace subsystem name =
     (if name = '''' then ''''
      else if namespace \<noteq> '''' \<and> subsystem \<noteq> '''' then join_underscore [namespace, subsystem, name]
      else if namespace \<noteq> '''' then join_underscore [namespace, name]
      else if subsystem \<noteq> '''' then join_underscore [subsystem, name]
      else name)"

definition fqName :: "CounterOpts \<Rightarrow> string" where
  "fqName c = BuildFQName (Namespace c) (Subsystem c) (Name c)"

text \<open>
  The registry, as the list of the fully qualified names registered so far.
  \<open>Register\<close> refuses a name that is already there and \<open>MustRegister\<close> panics on
  the first refusal.
\<close>

datatype panic = AlreadyRegistered string

definition Register :: "CounterOpts \<Rightarrow> string list \<Rightarrow> panic + string list" where
  "Register c r =
     (if fqName c \<in> set r then Inl (AlreadyRegistered (fqName c)) else Inr (r @ [fqName c]))"

fun MustRegister :: "CounterOpts list \<Rightarrow> string list \<Rightarrow> panic + string list" where
  "MustRegister [] r = Inr r"
| "MustRegister (c # cs) r =
     (case Register c r of Inl p \<Rightarrow> Inl p | Inr r' \<Rightarrow> MustRegister cs r')"

text \<open>\<open>init\<close> of the package (lines 47 to 54).\<close>

definition package_counters :: "CounterOpts list" where
  "package_counters =
     [MetricErrorAssociateInstanceAndFIP, MetricErrorCreateFIP, MetricSuccessfulOperations,
      MetricFailedOperations]"

definition metrics_init :: "string list \<Rightarrow> panic + string list" where
  "metrics_init r = MustRegister package_counters r"

text \<open>
  Go initialises the imported packages before it calls \<open>main.main\<close>: the process
  starts main with the registry \<open>init\<close> has left, or dies of its panic. \<open>r0\<close> is
  what the Prometheus library has registered by itself.
\<close>

definition process_start :: "string list \<Rightarrow> panic + state" where
  "process_start r0 =
     (case metrics_init r0 of Inl p \<Rightarrow> Inl p | Inr r \<Rightarrow> Inr (init_state r))"

definition go_collectors :: "string list" where
  "go_collectors = [''go_goroutines'', ''process_cpu_seconds_total'']"

section \<open>The command line (cmd/main.go, \<open>init\<close> and \<open>kingpin.Parse\<close>)\<close>

subsection \<open>The flags (cmd/main.go, lines 42 to 53)\<close>

text \<open>
  What a flag is bound to: \<open>StringVar(&opts.KubeConfig)\<close> is the setter of the field,
  tagged with the kind of value the flag reads. \<open>VersionFlag\<close> is the flag that
  \<open>kingpin.Version\<close> adds, which is bound to no field of the options.
\<close>

datatype target =
    StringVar "string \<Rightarrow> Options \<Rightarrow> Options"
  | BoolVar "bool \<Rightarrow> Options \<Rightarrow> Options"
  | IntVar "int \<Rightarrow> Options \<Rightarrow> Options"
  | DurationVar "int \<Rightarrow> Options \<Rightarrow> Options"
  | IPVar "IP \<Rightarrow> Options \<Rightarrow> Options"
  | VersionFlag

record flag =
  flag_name :: string
  flag_help :: string
  flag_default :: "string option"
  flag_required :: bool
  flag_target :: target

text \<open>The declarations of \<open>init\<close>, one for each line from 43 to 52.\<close>

definition kubeconfig_flag :: flag where
  "kubeconfig_flag =
     \<lparr>flag_name = ''kubeconfig'', flag_help = ''Absolute path to kubeconfig'',
      flag_default = None, flag_required = False,
      flag_target = StringVar (\<lambda>v o'. o'\<lparr>KubeConfig := v\<rparr>)\<rparr>"

definition debug_flag :: flag where
  "debug_flag =
     \<lparr>flag_name = ''debug'', flag_help = ''Enable debug logging'',
      flag_default = Some ''false'', flag_required = False,
      flag_target = BoolVar (\<lambda>v o'. o'\<lparr>IsDebug := v\<rparr>)\<rparr>"

definition threadiness_flag :: flag where
  "threadiness_flag =
     \<lparr>flag_name = ''threadiness'', flag_help = ''The controllers threadiness'',
      flag_default = Some ''1'', flag_required = False,
      flag_target = IntVar (\<lambda>v o'. o'\<lparr>Threadiness := v\<rparr>)\<rparr>"

definition recheck_interval_flag :: flag where
  "recheck_interval_flag =
     \<lparr>flag_name = ''recheck-interval'', flag_help = ''Interval for checking with OpenStack.'',
      flag_default = Some ''10m'', flag_required = False,
      flag_target = DurationVar (\<lambda>v o'. o'\<lparr>RecheckInterval := v\<rparr>)\<rparr>"

definition metric_host_flag :: flag where
  "metric_host_flag =
     \<lparr>flag_name = ''metric-host'', flag_help = ''The host to expose Prometheus metrics on.'',
      flag_default = Some ''0.0.0.0'', flag_required = False,
      flag_target = IPVar (\<lambda>v o'. o'\<lparr>MetricHost := v\<rparr>)\<rparr>"

definition metric_port_flag :: flag where
  "metric_port_flag =
     \<lparr>flag_name = ''metric-port'', flag_help = ''The port to expose Prometheus metrics on.'',
      flag_default = Some ''9091'', flag_required = False,
      flag_target = IntVar (\<lambda>v o'. o'\<lparr>MetricPort := v\<rparr>)\<rparr>"

definition default_floating_network_flag :: flag where
  "default_floating_network_flag =
     \<lparr>flag_name = ''default-floating-network'',
      flag_help = ''Name of the default Floating IP network.'',
      flag_default = None, flag_required = True,
      flag_target = StringVar (\<lambda>v o'. o'\<lparr>DefaultFloatingNetwork := v\<rparr>)\<rparr>"

definition default_floating_subnet_flag :: flag where
  "default_floating_subnet_flag =
     \<lparr>flag_name = ''default-floating-subnet'',
      flag_help = ''Name of the default Floating IP subnet.'',
      flag_default = None, flag_required = True,
      flag_target = StringVar (\<lambda>v o'. o'\<lparr>DefaultFloatingSubnet := v\<rparr>)\<rparr>"

definition config_flag :: flag where
  "config_flag =
     \<lparr>flag_name = ''config'', flag_help = ''Absolute path to configuration file.'',
      flag_default = None, flag_required = True,
      flag_target = StringVar (\<lambda>v o'. o'\<lparr>ConfigPath := v\<rparr>)\<rparr>"

definition version_flag :: flag where
  "version_flag =
     \<lparr>flag_name = ''version'', flag_help = ''Show application version.'',
      flag_default = None, flag_required = False, flag_target = VersionFlag\<rparr>"

definition flags :: "flag list" where
  "flags =
     [kubeconfig_flag, debug_flag, threadiness_flag, recheck_interval_flag, metric_host_flag,
      metric_port_flag, default_floating_network_flag, default_floating_subnet_flag,
      config_flag, version_flag]"

text \<open>The flags the specification lists as the command line's.\<close>

definition listed_flags :: "string list" where
  "listed_flags =
     [''kubeconfig'', ''debug'', ''threadiness'', ''recheck-interval'', ''metric-host'',
      ''metric-port'', ''default-floating-network'', ''default-floating-subnet'', ''config'']"

text \<open>The options before parsing: every field at Go's zero value.\<close>

definition zero_Options :: Options where
  "zero_Options =
     \<lparr>KubeConfig = '''', IsDebug = False, Threadiness = 0, RecheckInterval = 0,
      MetricHost = IPnil, MetricPort = 0, DefaultFloatingNetwork = '''',
      DefaultFloatingSubnet = '''', ConfigPath = ''''\<rparr>"

subsection \<open>\<open>kingpin.Parse\<close>\<close>

text \<open>
  The library's readers of a value's text (\<open>strconv.ParseBool\<close>, \<open>strconv.ParseInt\<close>,
  \<open>time.ParseDuration\<close>, \<open>net.ParseIP\<close>) are a parameter; \<open>None\<close> is a text they refuse.
\<close>

record parsers =
  parseBool :: "string \<Rightarrow> bool option"
  parseInt :: "string \<Rightarrow> int option"
  parseDuration :: "string \<Rightarrow> int option"
  parseIP :: "string \<Rightarrow> IP option"

text \<open>What the program's defaults need of the readers: the five literals read as Go reads them.\<close>

definition reads_defaults :: "parsers \<Rightarrow> bool" where
  "reads_defaults p =
     (parseBool p ''false'' = Some False \<and> parseInt p ''1'' = Some 1 \<and>
      parseInt p ''9091'' = Some 9091 \<and> parseDuration p ''10m'' = Some (10 * Minute) \<and>
      parseIP p ''0.0.0.0'' = Some (IPv4 0 0 0 0))"

fun set_flag :: "parsers \<Rightarrow> target \<Rightarrow> string \<Rightarrow> Options \<Rightarrow> Options option" where
  "set_flag p (StringVar f) t o' = Some (f t o')"
| "set_flag p (BoolVar f) t o' = map_option (\<lambda>v. f v o') (parseBool p t)"
| "set_flag p (IntVar f) t o' = map_option (\<lambda>v. f v o') (parseInt p t)"
| "set_flag p (DurationVar f) t o' = map_option (\<lambda>v. f v o') (parseDuration p t)"
| "set_flag p (IPVar f) t o' = map_option (\<lambda>v. f v o') (parseIP p t)"
| "set_flag p VersionFlag t o' = map_option (\<lambda>v. o') (parseBool p t)"

datatype parse_outcome = Usage_error string | Version_printed | Parsed Options

text \<open>
  One flag: the text given on the command line, else the default, is read into the
  flag's field; a required flag that was not given is an error; a flag with neither
  leaves the field as it is.
\<close>

definition apply_flag ::
  "parsers \<Rightarrow> (string \<times> string) list \<Rightarrow> flag \<Rightarrow> Options \<Rightarrow> string + Options" where
  "apply_flag p args f o' =
     (case map_of args (flag_name f) of
        Some t \<Rightarrow>
          (case set_flag p (flag_target f) t o' of
             None \<Rightarrow> Inl (''bad value for --'' @ flag_name f)
           | Some o'' \<Rightarrow> Inr o'')
      | None \<Rightarrow>
          (case flag_default f of
             Some d \<Rightarrow>
               (case set_flag p (flag_target f) d o' of
                  None \<Rightarrow> Inl (''bad value for --'' @ flag_name f)
                | Some o'' \<Rightarrow> Inr o'')
           | None \<Rightarrow>
               (if flag_required f
                then Inl (''required flag --'' @ flag_name f @ '' not provided'')
                else Inr o')))"

fun apply_flags ::
  "parsers \<Rightarrow> (string \<times> string) list \<Rightarrow> flag list \<Rightarrow> Options \<Rightarrow> string + Options" where
  "apply_flags p args [] o' = Inr o'"
| "apply_flags p args (f # fs) o' =
     (case apply_flag p args f o' of
        Inl err \<Rightarrow> Inl err
      | Inr o'' \<Rightarrow> apply_flags p args fs o'')"

text \<open>
  \<open>kingpin.Parse()\<close> on a command line given as its flags in order, each with the text
  of its value (\<open>--debug\<close> is \<open>(''debug'', ''true'')\<close>). The flags kingpin has
  of its own (\<open>--help\<close> and its hidden relatives) are not in the program's text and
  are left out. The flags are read up to the
  first one the program has not declared. The version flag acts before anything is
  validated: it prints the version and ends the process with status 0. Otherwise an
  undeclared flag, a repeated flag, a refused value or a missing required flag is a
  usage error, which ends the process with status 1.
\<close>

definition known :: "(string \<times> string) list \<Rightarrow> (string \<times> string) list" where
  "known args = takeWhile (\<lambda>a. fst a \<in> set (map flag_name flags)) args"

definition Parse :: "parsers \<Rightarrow> (string \<times> string) list \<Rightarrow> parse_outcome" where
  "Parse p args =
     (if ''version'' \<in> set (map fst (known args)) then Version_printed
      else if known args \<noteq> args then Usage_error ''unknown long flag''
      else if \<not> distinct (map fst args) then Usage_error ''flag cannot be repeated''
      else (case apply_flags p args flags zero_Options of
              Inl err \<Rightarrow> Usage_error err
            | Inr o' \<Rightarrow> Parsed o'))"

subsection \<open>Readers for the examples\<close>

text \<open>
  Readers of decimal integers, of durations written as one decimal number and a unit,
  of dotted IPv4 addresses and of \<open>true\<close> and \<open>false\<close>. Go's readers accept these
  forms with these values, and more forms besides.
\<close>

definition digit_val :: "char \<Rightarrow> nat option" where
  "digit_val = map_of (zip ''0123456789'' [0, 1, 2, 3, 4, 5, 6, 7, 8, 9])"

fun read_digits :: "string \<Rightarrow> nat \<Rightarrow> nat option" where
  "read_digits [] acc = Some acc"
| "read_digits (c # cs) acc =
     (case digit_val c of None \<Rightarrow> None | Some d \<Rightarrow> read_digits cs (10 * acc + d))"

definition read_nat :: "string \<Rightarrow> nat option" where
  "read_nat s = (if s = [] then None else read_digits s 0)"

definition read_int :: "string \<Rightarrow> int option" where
  "read_int s =
     (case s of
        [] \<Rightarrow> None
      | c # cs \<Rightarrow>
          (if c = CHR ''-'' then map_option (\<lambda>n. - int n) (read_nat cs)
           else map_option int (read_nat s)))"

definition read_bool :: "string \<Rightarrow> bool option" where
  "read_bool s =
     (if s = ''true'' then Some True else if s = ''false'' then Some False else None)"

definition unit_ns :: "string \<Rightarrow> int option" where
  "unit_ns u =
     (if u = ''ns'' then Some Nanosecond
      else if u = ''s'' then Some Second
      else if u = ''m'' then Some Minute
      else if u = ''h'' then Some (60 * Minute)
      else None)"

definition read_duration :: "string \<Rightarrow> int option" where
  "read_duration s =
     (case read_nat (takeWhile (\<lambda>c. digit_val c \<noteq> None) s) of
        None \<Rightarrow> None
      | Some n \<Rightarrow>
          (case unit_ns (dropWhile (\<lambda>c. digit_val c \<noteq> None) s) of
             None \<Rightarrow> None
           | Some u \<Rightarrow> Some (int n * u)))"

fun split_dots :: "string \<Rightarrow> string \<Rightarrow> string list" where
  "split_dots [] cur = [cur]"
| "split_dots (c # cs) cur =
     (if c = CHR ''.'' then cur # split_dots cs [] else split_dots cs (cur @ [c]))"

definition read_byte :: "string \<Rightarrow> nat option" where
  "read_byte s = (case read_nat s of None \<Rightarrow> None | Some n \<Rightarrow> if n < 256 then Some n else None)"

definition read_ip :: "string \<Rightarrow> IP option" where
  "read_ip s =
     (case map read_byte (split_dots s []) of
        [Some a, Some b, Some c, Some d] \<Rightarrow> Some (IPv4 a b c d)
      | _ \<Rightarrow> None)"

definition example_parsers :: parsers where
  "example_parsers =
     \<lparr>parseBool = read_bool, parseInt = read_int, parseDuration = read_duration,
      parseIP = read_ip\<rparr>"

text \<open>
  \<open>--default-floating-network=net --default-floating-subnet=sub --config=/etc/fip.yaml
  --threadiness=4\<close>
\<close>

definition example_args :: "(string \<times> string) list" where
  "example_args =
     [(''default-floating-network'', ''net''), (''default-floating-subnet'', ''sub''),
      (''config'', ''/etc/fip.yaml''), (''threadiness'', ''4'')]"





section \<open>The controller and the OpenStack framework (pkg/controller, pkg/frameworks)\<close>

subsection \<open>Data\<close>

text \<open>
  A node as the controller reads it: its name, its labels and its annotations. An
  informer hands its handlers objects; one that is no node carries no metadata.
\<close>

record Node =
  node_name :: string
  node_labels :: "string \<rightharpoonup> string"
  node_annotations :: "string \<rightharpoonup> string"

datatype obj = NodeObj Node | OtherObj

text \<open>
  An error value. \<open>ErrFIPNotFound\<close> is the sentinel of \<open>getFloatingIP\<close> (line 711);
  every other error carries its text.
\<close>

datatype error = ErrFIPNotFound | Error string

record Server =
  server_ID :: string
  server_Name :: string
  server_TenantID :: string

record Network =
  network_ID :: string
  network_Name :: string

record Subnet =
  subnet_ID :: string
  subnet_Name :: string

record Port =
  port_DeviceID :: string

record FloatingIP =
  fip_ID :: string
  fip_Description :: string
  fip_FloatingIP :: string
  fip_PortID :: string
  fip_FixedIP :: string
  fip_ProjectID :: string

record ListOpts =
  list_FloatingIP :: string
  list_ProjectID :: string
  list_Description :: string

record CreateOpts =
  create_FloatingNetworkID :: string
  create_SubnetID :: string
  create_FloatingIP :: string
  create_ProjectID :: string
  create_Description :: string

record UpdateOpts =
  update_FixedIP :: string

subsection \<open>The world outside the controller\<close>

text \<open>
  What the controller asks of the cluster and of OpenStack, in the order it asks.
\<close>

datatype request =
    IndexerGet string
  | StoreList
  | NodeAddLabels string "(string \<times> string) list"
  | NetworksList string
  | SubnetsList string
  | ServersGet string
  | ServersList string
  | PortsGet string
  | FloatingIPsList ListOpts
  | FloatingIPsCreate CreateOpts
  | FloatingIPsUpdate string UpdateOpts

fun is_create :: "request \<Rightarrow> bool" where
  "is_create (FloatingIPsCreate co) = True"
| "is_create r = False"

text \<open>
  The answers are a parameter: each may depend on everything asked before, so a cloud
  that changes with the requests it gets, or by itself, is among them. An answer
  \<open>Inl\<close> is the error of the call. \<open>getServerIDFromNode\<close>, a helper of the
  controller declared in another file of pkg/controller, reads a server identifier off the node or
  fails (\<open>None\<close>).
\<close>

record apis =
  indexer_get :: "request list \<Rightarrow> string \<Rightarrow> string + Node option"
  store_list :: "request list \<Rightarrow> obj list"
  node_add_labels :: "request list \<Rightarrow> Node \<Rightarrow> (string \<times> string) list \<Rightarrow> string option"
  getServerIDFromNode :: "Node \<Rightarrow> string option"
  networks_list :: "request list \<Rightarrow> string \<Rightarrow> string + Network list"
  subnets_list :: "request list \<Rightarrow> string \<Rightarrow> string + Subnet list"
  servers_get :: "request list \<Rightarrow> string \<Rightarrow> string + Server"
  servers_list :: "request list \<Rightarrow> string \<Rightarrow> string + Server list"
  ports_get :: "request list \<Rightarrow> string \<Rightarrow> string + Port"
  fips_list :: "request list \<Rightarrow> ListOpts \<Rightarrow> string + FloatingIP list"
  fips_create :: "request list \<Rightarrow> CreateOpts \<Rightarrow> string + FloatingIP"
  fips_update :: "request list \<Rightarrow> string \<Rightarrow> UpdateOpts \<Rightarrow> string option"

text \<open>
  What the queue has been told, oldest first: \<open>AddAfter key delay\<close> is an
  \<open>AddRateLimited\<close> with the delay the rate limiter gave, \<open>Forgotten key\<close> a
  \<open>Forget\<close>.
\<close>

datatype queue_event = AddAfter string int | Forgotten string

text \<open>
  The state the controller's code works on: the requests made so far, the value of
  each Prometheus counter by its fully qualified name, the rate limiter's failure
  count of each key, and what the queue has been told.
\<close>

record world =
  requests :: "request list"
  metrics :: "string \<Rightarrow> nat"
  failures :: "string \<Rightarrow> nat"
  queue_log :: "queue_event list"


text \<open>A call goes on record and is answered from what was asked before it.\<close>

definition call :: "request \<Rightarrow> (request list \<Rightarrow> 'a) \<Rightarrow> world \<Rightarrow> 'a \<times> world" where
  "call r answer w = (answer (requests w), w\<lparr>requests := requests w @ [r]\<rparr>)"

text \<open>\<open>Inc()\<close> of a counter of pkg/metrics: Prometheus adds one to its value.\<close>

definition Inc :: "CounterOpts \<Rightarrow> world \<Rightarrow> world" where
  "Inc c w = w\<lparr>metrics := (metrics w)(fqName c := metrics w (fqName c) + 1)\<rparr>"

text \<open>Sequencing of calls that may fail: the first error ends the sequence.\<close>

definition and_then ::
  "(world \<Rightarrow> (error + 'a) \<times> world) \<Rightarrow> ('a \<Rightarrow> world \<Rightarrow> (error + 'b) \<times> world) \<Rightarrow>
   world \<Rightarrow> (error + 'b) \<times> world" where
  "and_then m f w = (case m w of (Inl err, w') \<Rightarrow> (Inl err, w') | (Inr x, w') \<Rightarrow> f x w')"

subsection \<open>The OpenStack framework (pkg/frameworks, src/Makefile lines 403 to 712)\<close>

definition createFIPDescription :: string where
  "createFIPDescription = ''Floating IP allocated by kube-fip-controller''"

text \<open>\<open>fmt.Sprintf(createFIPDescriptionNodepool, nodepool)\<close>.\<close>

definition createFIPDescriptionNodepool :: "string \<Rightarrow> string" where
  "createFIPDescriptionNodepool nodepool =
     ''Floating IP allocated by kube-fip-controller nodepool='' @ nodepool"

text \<open>
  Modelled from the spec: \<open>IsFIPNotFound\<close> is declared in another file of
  pkg/frameworks. Section 7: FIP-not-found is a sentinel within the adapter
  that drives the fall-through to creation.
\<close>

definition IsFIPNotFound :: "error \<Rightarrow> bool" where
  "IsFIPNotFound err = (err = ErrFIPNotFound)"

text \<open>Lines 511 to 533.\<close>

definition GetServerByName :: "apis \<Rightarrow> string \<Rightarrow> world \<Rightarrow> (error + Server) \<times> world" where
  "GetServerByName cl name w =
     (case call (ServersList name) (\<lambda>h. servers_list cl h name) w of
        (Inl err, w') \<Rightarrow> (Inl (Error err), w')
      | (Inr allServers, w') \<Rightarrow>
          (case find (\<lambda>s. server_Name s = name) allServers of
             Some s \<Rightarrow> (Inr s, w')
           | None \<Rightarrow> (Inl (Error (''no server with name '' @ name @ '' found'')), w')))"

text \<open>Lines 536 to 538.\<close>

definition GetServerByID :: "apis \<Rightarrow> string \<Rightarrow> world \<Rightarrow> (error + Server) \<times> world" where
  "GetServerByID cl ident w =
     (case call (ServersGet ident) (\<lambda>h. servers_get cl h ident) w of
        (Inl err, w') \<Rightarrow> (Inl (Error err), w')
      | (Inr s, w') \<Rightarrow> (Inr s, w'))"

text \<open>Lines 541 to 577: the active networks of that name in all projects, first exact match.\<close>

definition GetNetworkIDByName :: "apis \<Rightarrow> string \<Rightarrow> world \<Rightarrow> (error + string) \<times> world" where
  "GetNetworkIDByName cl name w =
     (case call (NetworksList name) (\<lambda>h. networks_list cl h name) w of
        (Inl err, w') \<Rightarrow> (Inl (Error err), w')
      | (Inr nets, w') \<Rightarrow>
          (case find (\<lambda>n. network_Name n = name) nets of
             Some n \<Rightarrow> (Inr (network_ID n), w')
           | None \<Rightarrow> (Inl (Error (''no network with name '' @ name @ '' found'')), w')))"

text \<open>Lines 580 to 602.\<close>

definition GetSubnetIDByName :: "apis \<Rightarrow> string \<Rightarrow> world \<Rightarrow> (error + string) \<times> world" where
  "GetSubnetIDByName cl name w =
     (case call (SubnetsList name) (\<lambda>h. subnets_list cl h name) w of
        (Inl err, w') \<Rightarrow> (Inl (Error err), w')
      | (Inr allSubnets, w') \<Rightarrow>
          (case find (\<lambda>s. subnet_Name s = name) allSubnets of
             Some s \<Rightarrow> (Inr (subnet_ID s), w')
           | None \<Rightarrow> (Inl (Error (''no subnet with name '' @ name @ '' found'')), w')))"

text \<open>Lines 655 to 657.\<close>

definition getPortByID :: "apis \<Rightarrow> string \<Rightarrow> world \<Rightarrow> (error + Port) \<times> world" where
  "getPortByID cl ident w =
     (case call (PortsGet ident) (\<lambda>h. ports_get cl h ident) w of
        (Inl err, w') \<Rightarrow> (Inl (Error err), w')
      | (Inr p, w') \<Rightarrow> (Inr p, w'))"

text \<open>Lines 685 to 691: the options of the listing.\<close>

definition fip_listOpts :: "string \<Rightarrow> string \<Rightarrow> string \<Rightarrow> bool \<Rightarrow> ListOpts" where
  "fip_listOpts floatingIP projectID nodepool reuse =
     \<lparr>list_FloatingIP = floatingIP, list_ProjectID = projectID,
      list_Description =
        (if reuse \<and> floatingIP = '''' \<and> nodepool \<noteq> ''''
         then createFIPDescriptionNodepool nodepool else '''')\<rparr>"

text \<open>Lines 702 to 709: the loop over the listing, which returns at the first match.\<close>

fun first_fip :: "string \<Rightarrow> string \<Rightarrow> bool \<Rightarrow> FloatingIP list \<Rightarrow> FloatingIP option" where
  "first_fip floatingIP nodepool reuse [] = None"
| "first_fip floatingIP nodepool reuse (fip # allFIPs) =
     (if fip_FloatingIP fip = floatingIP then Some fip
      else if reuse \<and> floatingIP = '''' \<and> nodepool \<noteq> '''' \<and> fip_FixedIP fip = '''' then Some fip
      else first_fip floatingIP nodepool reuse allFIPs)"

text \<open>Lines 684 to 712.\<close>

definition getFloatingIP ::
  "apis \<Rightarrow> string \<Rightarrow> string \<Rightarrow> string \<Rightarrow> bool \<Rightarrow> world \<Rightarrow> (error + FloatingIP) \<times> world" where
  "getFloatingIP cl floatingIP projectID nodepool reuse w =
     (case call (FloatingIPsList (fip_listOpts floatingIP projectID nodepool reuse))
             (\<lambda>h. fips_list cl h (fip_listOpts floatingIP projectID nodepool reuse)) w of
        (Inl err, w') \<Rightarrow> (Inl (Error err), w')
      | (Inr allFIPs, w') \<Rightarrow>
          (case first_fip floatingIP nodepool reuse allFIPs of
             Some fip \<Rightarrow> (Inr fip, w')
           | None \<Rightarrow> (Inl ErrFIPNotFound, w')))"

text \<open>Lines 660 to 671: the options of the creation.\<close>

definition fip_createOpts :: "string \<Rightarrow> string \<Rightarrow> string \<Rightarrow> string \<Rightarrow> string \<Rightarrow> CreateOpts" where
  "fip_createOpts floatingIP floatingNetworkID subnetID projectID nodepool =
     \<lparr>create_FloatingNetworkID = floatingNetworkID, create_SubnetID = subnetID,
      create_FloatingIP = floatingIP, create_ProjectID = projectID,
      create_Description =
        (if nodepool \<noteq> '''' then createFIPDescriptionNodepool nodepool
         else createFIPDescription)\<rparr>"

text \<open>Lines 659 to 682.\<close>

definition createFloatingIP ::
  "apis \<Rightarrow> string \<Rightarrow> string \<Rightarrow> string \<Rightarrow> string \<Rightarrow> string \<Rightarrow> world \<Rightarrow>
   (error + FloatingIP) \<times> world" where
  "createFloatingIP cl floatingIP floatingNetworkID subnetID projectID nodepool w =
     (case call
             (FloatingIPsCreate
                (fip_createOpts floatingIP floatingNetworkID subnetID projectID nodepool))
             (\<lambda>h. fips_create cl h
                (fip_createOpts floatingIP floatingNetworkID subnetID projectID nodepool)) w of
        (Inl err, w') \<Rightarrow> (Inl (Error err), Inc MetricErrorCreateFIP w')
      | (Inr fip, w') \<Rightarrow> (Inr fip, w'))"

text \<open>Lines 605 to 616.\<close>

definition GetOrCreateFloatingIP ::
  "apis \<Rightarrow> string \<Rightarrow> string \<Rightarrow> string \<Rightarrow> string \<Rightarrow> string \<Rightarrow> bool \<Rightarrow> world \<Rightarrow>
   (error + FloatingIP) \<times> world" where
  "GetOrCreateFloatingIP cl floatingIP floatingNetworkID subnetID projectID nodepool reuse w =
     (case getFloatingIP cl floatingIP projectID nodepool reuse w of
        (Inr fip, w') \<Rightarrow> (Inr fip, w')
      | (Inl err, w') \<Rightarrow>
          (if IsFIPNotFound err
           then createFloatingIP cl floatingIP floatingNetworkID subnetID projectID nodepool w'
           else (Inl err, w')))"

text \<open>Lines 639 to 653: the update is addressed to the server's identifier.\<close>

definition associateInstanceAndFIP ::
  "apis \<Rightarrow> Server \<Rightarrow> string \<Rightarrow> world \<Rightarrow> (error + unit) \<times> world" where
  "associateInstanceAndFIP cl srv floatingIP w =
     (case call (FloatingIPsUpdate (server_ID srv) \<lparr>update_FixedIP = floatingIP\<rparr>)
             (\<lambda>h. fips_update cl h (server_ID srv) \<lparr>update_FixedIP = floatingIP\<rparr>) w of
        (Some err, w') \<Rightarrow> (Inl (Error err), Inc MetricErrorAssociateInstanceAndFIP w')
      | (None, w') \<Rightarrow> (Inr (), w'))"

text \<open>Lines 619 to 637.\<close>

definition EnsureAssociatedInstanceAndFIP ::
  "apis \<Rightarrow> Server \<Rightarrow> FloatingIP \<Rightarrow> world \<Rightarrow> (error + unit) \<times> world" where
  "EnsureAssociatedInstanceAndFIP cl srv fip w =
     (case getPortByID cl (fip_PortID fip) w of
        (Inl err, w') \<Rightarrow> (Inl err, w')
      | (Inr port, w') \<Rightarrow>
          (if port_DeviceID port = '''' then associateInstanceAndFIP cl srv (fip_FloatingIP fip) w'
           else if port_DeviceID port = server_ID srv then (Inr (), w')
           else (Inl (Error (''FIP already associated with another server '' @ server_Name srv)),
                 w')))"

subsection \<open>The work queue (client-go, as line 208 builds it)\<close>

text \<open>
  \<open>NewTypedItemExponentialFailureRateLimiter(30*time.Second, 600*time.Second)\<close>: the
  delay \<open>When\<close> gives a key with \<open>exp\<close> failures on record is the base delay times
  \<open>2 ^ exp\<close>, replaced by the maximal delay when it exceeds it (or the range of a
  duration). Delays are in nanoseconds.
\<close>

definition baseDelay :: int where "baseDelay = 30 * Second"
definition maxDelay :: int where "maxDelay = 600 * Second"
definition MaxInt64 :: int where "MaxInt64 = 2 ^ 63 - 1"

definition backoff :: "nat \<Rightarrow> int" where
  "backoff exp =
     (if baseDelay * 2 ^ exp > MaxInt64 then maxDelay
      else if baseDelay * 2 ^ exp > maxDelay then maxDelay
      else baseDelay * 2 ^ exp)"

definition NumRequeues :: "world \<Rightarrow> string \<Rightarrow> nat" where
  "NumRequeues w key = failures w key"

text \<open>\<open>AddRateLimited\<close>: \<open>AddAfter(key, When(key))\<close>, and \<open>When\<close> counts one more failure.\<close>

definition AddRateLimited :: "string \<Rightarrow> world \<Rightarrow> world" where
  "AddRateLimited key w =
     w\<lparr>queue_log := queue_log w @ [AddAfter key (backoff (failures w key))],
       failures := (failures w)(key := failures w key + 1)\<rparr>"

definition Forget :: "string \<Rightarrow> world \<Rightarrow> world" where
  "Forget key w =
     w\<lparr>queue_log := queue_log w @ [Forgotten key], failures := (failures w)(key := 0)\<rparr>"

subsection \<open>The controller (pkg/controller, src/Makefile lines 117 to 402)\<close>

definition labelKubeFIPControllerEnabled :: string where
  "labelKubeFIPControllerEnabled = ''kube-fip-controller.ccloud.sap.com/enabled''"

definition labelExternalIP :: string where
  "labelExternalIP = ''kube-fip-controller.ccloud.sap.com/externalIP''"

definition labelFloatingNetworkName :: string where
  "labelFloatingNetworkName = ''kube-fip-controller.ccloud.sap.com/floating-network-name''"

definition labelFloatingSubnetName :: string where
  "labelFloatingSubnetName = ''kube-fip-controller.ccloud.sap.com/floating-subnet-name''"

definition labelNodepoolName :: string where
  "labelNodepoolName = ''ccloud.sap.com/nodepool''"

definition labelReuseFIPs :: string where
  "labelReuseFIPs = ''kube-fip-controller.ccloud.sap.com/reuse-fips''"

text \<open>
  Modelled from the spec: \<open>getLabelValue\<close> is declared in another file of
  pkg/controller. Section 3: a node carries a mapping of labels; the value
  comes with whether the label is there.
\<close>

definition getLabelValue :: "Node \<Rightarrow> string \<Rightarrow> string option" where
  "getLabelValue node label = node_labels node label"

text \<open>\<open>cache.MetaNamespaceKeyFunc\<close>: a node has no namespace, so its key is its name.\<close>

fun MetaNamespaceKeyFunc :: "obj \<Rightarrow> string + string" where
  "MetaNamespaceKeyFunc (NodeObj node) = Inr (node_name node)"
| "MetaNamespaceKeyFunc OtherObj = Inl ''object has no meta''"

text \<open>Lines 380 to 387.\<close>

definition enqueueItem :: "obj \<Rightarrow> world \<Rightarrow> world" where
  "enqueueItem ob w =
     (case MetaNamespaceKeyFunc ob of Inl err \<Rightarrow> w | Inr key \<Rightarrow> AddRateLimited key w)"

text \<open>Lines 389 to 393.\<close>

definition enqueueAllItems :: "apis \<Rightarrow> world \<Rightarrow> world" where
  "enqueueAllItems cl w =
     (case call StoreList (store_list cl) w of (objs, w') \<Rightarrow> fold enqueueItem objs w')"

text \<open>Lines 216 to 222: the update handler that \<open>New\<close> installs.\<close>

definition onUpdate :: "Node \<Rightarrow> Node \<Rightarrow> world \<Rightarrow> world" where
  "onUpdate ol nw w =
     (if node_annotations ol \<noteq> node_annotations nw \<or> node_labels ol \<noteq> node_labels nw
      then enqueueItem (NodeObj nw) w else w)"

text \<open>Lines 361 to 378.\<close>

fun handleError :: "error option \<Rightarrow> string \<Rightarrow> world \<Rightarrow> world" where
  "handleError None key w = Forget key (Inc MetricSuccessfulOperations w)"
| "handleError (Some err) key w =
     (if NumRequeues (Inc MetricFailedOperations w) key < 5
      then AddRateLimited key (Inc MetricFailedOperations w)
      else Forget key (Inc MetricFailedOperations w))"

text \<open>Lines 395 to 402.\<close>

definition getServer :: "apis \<Rightarrow> Node \<Rightarrow> world \<Rightarrow> (error + Server) \<times> world" where
  "getServer cl node w =
     (case getServerIDFromNode cl node of
        Some serverID \<Rightarrow>
          (case GetServerByID cl serverID w of
             (Inr srv, w') \<Rightarrow> (Inr srv, w')
           | (Inl err, w') \<Rightarrow> GetServerByName cl (node_name node) w')
      | None \<Rightarrow> GetServerByName cl (node_name node) w)"

text \<open>The two calls of the cluster framework that \<open>syncHandler\<close> makes.\<close>

definition GetNodeFromIndexerByKey ::
  "apis \<Rightarrow> string \<Rightarrow> world \<Rightarrow> (error + Node option) \<times> world" where
  "GetNodeFromIndexerByKey cl key w =
     (case call (IndexerGet key) (\<lambda>h. indexer_get cl h key) w of
        (Inl err, w') \<Rightarrow> (Inl (Error err), w')
      | (Inr found, w') \<Rightarrow> (Inr found, w'))"

definition AddLabelsToNode ::
  "apis \<Rightarrow> Node \<Rightarrow> (string \<times> string) list \<Rightarrow> world \<Rightarrow> (error + unit) \<times> world" where
  "AddLabelsToNode cl node labels w =
     (case call (NodeAddLabels (node_name node) labels) (\<lambda>h. node_add_labels cl h node labels) w of
        (Some err, w') \<Rightarrow> (Inl (Error err), w')
      | (None, w') \<Rightarrow> (Inr (), w'))"

text \<open>Lines 302 to 358: what \<open>syncHandler\<close> does with a node that is enabled.\<close>

definition syncNode :: "apis \<Rightarrow> Options \<Rightarrow> Node \<Rightarrow> world \<Rightarrow> (error + unit) \<times> world" where
  "syncNode cl o' node =
     and_then
       (GetNetworkIDByName cl
          (case getLabelValue node labelFloatingNetworkName of
             Some val \<Rightarrow> if val \<noteq> '''' then val else DefaultFloatingNetwork o'
           | None \<Rightarrow> DefaultFloatingNetwork o'))
       (\<lambda>floatingNetworkID.
          and_then
            (GetSubnetIDByName cl
               (case getLabelValue node labelFloatingSubnetName of
                  Some val \<Rightarrow> if val \<noteq> '''' then val else DefaultFloatingSubnet o'
                | None \<Rightarrow> DefaultFloatingSubnet o'))
            (\<lambda>floatingSubnetID.
               and_then (getServer cl node)
                 (\<lambda>srv.
                    and_then
                      (GetOrCreateFloatingIP cl
                         (case getLabelValue node labelExternalIP of
                            Some val \<Rightarrow> val | None \<Rightarrow> '''')
                         floatingNetworkID floatingSubnetID (server_TenantID srv)
                         (case getLabelValue node labelNodepoolName of
                            Some val \<Rightarrow> val | None \<Rightarrow> '''')
                         (case getLabelValue node labelReuseFIPs of
                            Some val \<Rightarrow> val = ''true'' | None \<Rightarrow> False))
                      (\<lambda>fip.
                         and_then
                           (AddLabelsToNode cl node [(labelExternalIP, fip_FloatingIP fip)])
                           (\<lambda>u. EnsureAssociatedInstanceAndFIP cl srv fip)))))"

text \<open>Lines 281 to 359. The result is the error returned, \<open>None\<close> for nil.\<close>

definition syncHandler :: "apis \<Rightarrow> Options \<Rightarrow> string \<Rightarrow> world \<Rightarrow> error option \<times> world" where
  "syncHandler cl o' key w =
     (case GetNodeFromIndexerByKey cl key w of
        (Inl err, w') \<Rightarrow> (Some err, w')
      | (Inr None, w') \<Rightarrow> (None, w')
      | (Inr (Some node), w') \<Rightarrow>
          (case getLabelValue node labelKubeFIPControllerEnabled of
             None \<Rightarrow> (None, w')
           | Some val \<Rightarrow>
               (if val \<noteq> ''true'' then (None, w')
                else (case syncNode cl o' node w' of
                        (Inl err, w'') \<Rightarrow> (Some err, w'')
                      | (Inr u, w'') \<Rightarrow> (None, w'')))))"

text \<open>Lines 269 to 279, for the key that \<open>Get\<close> has handed the worker.\<close>

definition processNextItem :: "apis \<Rightarrow> Options \<Rightarrow> string \<Rightarrow> world \<Rightarrow> world" where
  "processNextItem cl o' key w =
     (case syncHandler cl o' key w of (err, w') \<Rightarrow> handleError err key w')"

text \<open>
  What happens to a running controller, one at a time: the informer reports a node
  added, deleted or updated (lines 213 to 223), the ticker fires (line 251), or a worker
  gets a key from the queue and processes it.
\<close>

datatype controller_step =
    OnAdd obj | OnDelete obj | OnUpdate Node Node | Tick | ProcessNextItem string

fun controller_exec :: "apis \<Rightarrow> Options \<Rightarrow> world \<Rightarrow> controller_step \<Rightarrow> world" where
  "controller_exec cl o' w (OnAdd ob) = enqueueItem ob w"
| "controller_exec cl o' w (OnDelete ob) = enqueueItem ob w"
| "controller_exec cl o' w (OnUpdate ol nw) = onUpdate ol nw w"
| "controller_exec cl o' w Tick = enqueueAllItems cl w"
| "controller_exec cl o' w (ProcessNextItem key) = processNextItem cl o' key w"


text \<open>The states an execution goes through, the first one included.\<close>

fun trace :: "apis \<Rightarrow> Options \<Rightarrow> controller_step list \<Rightarrow> world \<Rightarrow> world list" where
  "trace cl o' [] w = [w]"
| "trace cl o' (st # steps) w = w # trace cl o' steps (controller_exec cl o' w st)"




text \<open>Between two states: the queue is as it was and no counter is lower.\<close>

definition advances :: "world \<Rightarrow> world \<Rightarrow> bool" where
  "advances w w' =
     (failures w' = failures w \<and> queue_log w' = queue_log w \<and>
      (\<forall>n. metrics w n \<le> metrics w' n))"




section \<open>Properties of the process\<close>

lemma run_Nil: "run e [] s = s"
  by (simp add: run_def)

lemma run_Cons: "run e (a # as) s = run e as (exec e s a)"
  by (simp add: run_def)

lemma run_append: "run e (as @ bs) s = run e bs (run e as s)"
  by (simp add: run_def)

lemma run_invariant:
  assumes "P s" and "\<And>s a. P s \<Longrightarrow> P (exec e s a)"
  shows "P (run e as s)"
  using assms(1)
proof (induction as arbitrary: s)
  case Nil
  then show ?case by (simp add: run_Nil)
next
  case (Cons a as)
  then show ?case by (simp add: run_Cons assms(2))
qed

lemma allowed_above_debug: "l \<noteq> LevelDebug \<Longrightarrow> allowed o' l"
  by (cases o') simp_all

lemma logs_emit:
  "l \<noteq> LevelDebug \<Longrightarrow> logs (emit e l msg err s) = logs s @ [LogLine l msg err]"
  by (simp add: emit_def allowed_above_debug)

lemma emit_fields:
  "main_pc (emit e l msg err s) = main_pc s"
  "run_pc (emit e l msg err s) = run_pc s"
  "metrics_pc (emit e l msg err s) = metrics_pc s"
  "serve_pc (emit e l msg err s) = serve_pc s"
  "notified (emit e l msg err s) = notified s"
  "sigs (emit e l msg err s) = sigs s"
  "stop_closed (emit e l msg err s) = stop_closed s"
  "wg (emit e l msg err s) = wg s"
  "listener (emit e l msg err s) = listener s"
  "server (emit e l msg err s) = server s"
  "exited (emit e l msg err s) = exited s"
  "registry (emit e l msg err s) = registry s"
  by (simp_all add: emit_def)

lemma logs_emit_mono: "x \<in> set (logs s) \<Longrightarrow> x \<in> set (logs (emit e l msg err s))"
  by (simp add: emit_def)

lemma failed_start_exec:
  assumes "New_error e = Some err" and "failed_start err s"
  shows "failed_start err (exec e s a)"
proof (cases a)
  case StepMain
  with assms show ?thesis
    by (auto simp: failed_start_def exec_def logs_emit emit_fields split: main_pc.splits option.splits)
next
  case StepRun
  with assms show ?thesis
    by (auto simp: failed_start_def exec_def split: main_pc.splits option.splits)
next
  case StepMetrics
  with assms show ?thesis
    by (auto simp: failed_start_def exec_def split: main_pc.splits option.splits)
next
  case StepServe
  with assms show ?thesis
    by (auto simp: failed_start_def exec_def emit_fields logs_emit_mono split: main_pc.splits option.splits serve_pc.splits)
next
  case (Deliver sg)
  with assms show ?thesis
    by (auto simp: failed_start_def exec_def split: main_pc.splits option.splits list.splits)
qed

lemma failed_start_init: "failed_start err (init_state r)"
  by (simp add: failed_start_def init_state_def)

lemma failed_start_run:
  assumes "New_error e = Some err"
  shows "failed_start err (run e as (init_state r))"
  by (rule run_invariant [where P = "failed_start err"])
     (simp_all add: failed_start_init failed_start_exec [OF assms])

text \<open>
  C3. When \<open>controller.New\<close> returns an error, no execution of main ever starts
  \<open>c.Run\<close>: the controller goroutine is never spawned, whatever the schedule and the
  signals. Main logs the fatal error and returns: once main is done the error line is in
  the log and the process has exited, and five steps of main alone reach that point.
\<close>

theorem main_New_error_never_runs:
  assumes "New_error e = Some err"
  shows "(\<forall>as. run_pc (run e as (init_state r)) = R_NotSpawned \<and>
            (main_pc (run e as (init_state r)) = M_Done \<longrightarrow>
               LogLine LevelError ''fatal error starting the controller'' (Some err)
                 \<in> set (logs (run e as (init_state r))) \<and>
               exited (run e as (init_state r)) = Some Exit0)) \<and>
         main_pc (run e [StepMain, StepMain, StepMain, StepMain, StepMain] (init_state r)) = M_Done"
proof -
  have inv: "failed_start err (run e as (init_state r))" for as
    by (rule failed_start_run [OF assms])
  have a: "run_pc (run e as (init_state r)) = R_NotSpawned" for as
    using inv [of as] by (simp add: failed_start_def)
  have b: "main_pc (run e as (init_state r)) = M_Done \<Longrightarrow>
               LogLine LevelError ''fatal error starting the controller'' (Some err)
                 \<in> set (logs (run e as (init_state r))) \<and>
               exited (run e as (init_state r)) = Some Exit0" for as
    using inv [of as] by (simp add: failed_start_def)
  have c: "main_pc (run e [StepMain, StepMain, StepMain, StepMain, StepMain] (init_state r)) = M_Done"
    using assms by (simp add: run_Cons run_Nil exec_def init_state_def emit_fields)
  from a b c show ?thesis by blast
qed

theorem main_New_error_never_runs_witness:
  "New_error (example_env\<lparr>New_error := Some ''no auth config''\<rparr>) = Some ''no auth config'' \<and>
   run_pc (run (example_env\<lparr>New_error := Some ''no auth config''\<rparr>)
             [StepMain, StepMain, Deliver SIGTERM, StepMain, StepRun, StepMetrics, StepMain, StepMain]
             (init_state [])) = R_NotSpawned \<and>
   main_pc (run (example_env\<lparr>New_error := Some ''no auth config''\<rparr>)
             [StepMain, StepMain, StepMain, StepMain, StepMain] (init_state [])) = M_Done \<and>
   logs (run (example_env\<lparr>New_error := Some ''no auth config''\<rparr>)
             [StepMain, StepMain, StepMain, StepMain, StepMain] (init_state [])) =
     [LogLine LevelError ''fatal error starting the controller'' (Some ''no auth config'')]"
proof -
  have h: "New_error (example_env\<lparr>New_error := Some ''no auth config''\<rparr>) = Some ''no auth config''"
    by simp
  have l: "logs (run (example_env\<lparr>New_error := Some ''no auth config''\<rparr>)
             [StepMain, StepMain, StepMain, StepMain, StepMain] (init_state [])) =
     [LogLine LevelError ''fatal error starting the controller'' (Some ''no auth config'')]"
    by (simp add: run_Cons run_Nil exec_def init_state_def emit_def logLevel_def
          example_env_def example_opts_def)
  from main_New_error_never_runs [OF h, of "[]"] h l show ?thesis by blast
qed

subsection \<open>Shutdown\<close>

lemma consistent_init: "consistent (init_state r)"
  by (simp add: consistent_def init_state_def)

lemma consistent_exec:
  assumes "consistent s"
  shows "consistent (exec e s a)"
proof (cases a)
  case StepMain
  with assms show ?thesis
    by (cases "main_pc s")
       (auto simp: consistent_def exec_def emit_fields split: option.splits list.splits)
next
  case StepRun
  with assms show ?thesis
    by (auto simp: consistent_def exec_def split: option.splits run_pc.splits)
next
  case StepMetrics
  with assms show ?thesis
    by (cases "metrics_pc s")
       (auto simp: consistent_def exec_def emit_fields split: option.splits)
next
  case StepServe
  with assms show ?thesis
    by (cases "serve_pc s")
       (auto simp: consistent_def exec_def emit_fields split: option.splits)
next
  case (Deliver sg)
  with assms show ?thesis
    by (auto simp: consistent_def exec_def split: option.splits list.splits)
qed

lemma consistent_run: "consistent (run e as (init_state r))"
  by (rule run_invariant [where P = consistent]) (simp_all add: consistent_init consistent_exec)

lemma stuck_exec:
  assumes "stuck s"
  shows "stuck (exec e s a)"
proof (cases a)
  case StepMain
  with assms show ?thesis
    by (cases "main_pc s")
       (auto simp: stuck_def exec_def emit_fields split: option.splits list.splits)
next
  case StepRun
  with assms show ?thesis
    by (auto simp: stuck_def exec_def split: option.splits run_pc.splits)
next
  case StepMetrics
  with assms show ?thesis
    by (auto simp: stuck_def exec_def)
next
  case StepServe
  with assms show ?thesis
    by (cases "serve_pc s")
       (auto simp: stuck_def exec_def emit_fields split: option.splits)
next
  case (Deliver sg)
  with assms show ?thesis
    by (auto simp: stuck_def exec_def split: option.splits list.splits)
qed

lemma stuck_run: "stuck s \<Longrightarrow> stuck (run e as s)"
  by (rule run_invariant [where P = stuck]) (simp_all add: stuck_exec)

lemma consistent_blocked_stuck:
  assumes "consistent s" and "metrics_pc s = S_RecvStop" and "awaiting (main_pc s)"
  shows "stuck s"
  using assms by (cases "main_pc s") (auto simp: consistent_def stuck_def)

text \<open>
  C9 (as amended). In every execution the stop channel is closed exactly when main is
  past its deferred \<open>close(stop)\<close>, which on the path that starts the goroutines
  comes after \<open>wg.Wait()\<close>, and the wait group counts one exactly between the
  \<open>wg.Add(1)\<close> and the deferred \<open>wg.Done()\<close> of ServeMetrics. Whenever ServeMetrics is blocked on the stop channel while main has
  not yet returned from \<open>wg.Wait()\<close>, then in every continuation the stop channel
  stays open, ServeMetrics stays blocked, main never gets past \<open>wg.Wait()\<close> and the
  process never exits: the shutdown after a signal cannot complete.
\<close>

theorem wait_before_close_never_completes:
  "(\<forall>as. stop_closed (run e as (init_state r)) =
            (main_pc (run e as (init_state r)) = M_Return \<or>
             main_pc (run e as (init_state r)) = M_Done) \<and>
         wg (run e as (init_state r)) =
            (if holds_wg (metrics_pc (run e as (init_state r))) then 1 else 0)) \<and>
   (\<forall>as bs. metrics_pc (run e as (init_state r)) = S_RecvStop \<and>
            awaiting (main_pc (run e as (init_state r))) \<longrightarrow>
            \<not> stop_closed (run e (as @ bs) (init_state r)) \<and>
            metrics_pc (run e (as @ bs) (init_state r)) = S_RecvStop \<and>
            awaiting (main_pc (run e (as @ bs) (init_state r))) \<and>
            wg (run e (as @ bs) (init_state r)) = 1 \<and>
            exited (run e (as @ bs) (init_state r)) = None)"
proof -
  have a: "stop_closed (run e as (init_state r)) =
            (main_pc (run e as (init_state r)) = M_Return \<or>
             main_pc (run e as (init_state r)) = M_Done) \<and>
         wg (run e as (init_state r)) =
            (if holds_wg (metrics_pc (run e as (init_state r))) then 1 else 0)" for as
    using consistent_run [of e as r] unfolding consistent_def by blast
  have b: "\<not> stop_closed (run e (as @ bs) (init_state r)) \<and>
            metrics_pc (run e (as @ bs) (init_state r)) = S_RecvStop \<and>
            awaiting (main_pc (run e (as @ bs) (init_state r))) \<and>
            wg (run e (as @ bs) (init_state r)) = 1 \<and>
            exited (run e (as @ bs) (init_state r)) = None"
    if h: "metrics_pc (run e as (init_state r)) = S_RecvStop"
          "awaiting (main_pc (run e as (init_state r)))" for as bs
  proof -
    have "stuck (run e as (init_state r))"
      by (rule consistent_blocked_stuck [OF consistent_run h])
    then have "stuck (run e bs (run e as (init_state r)))"
      by (rule stuck_run)
    then show ?thesis
      by (simp add: run_append stuck_def)
  qed
  from a b show ?thesis by blast
qed

lemma boot_state:
  "run example_env boot (init_state []) =
     \<lparr>main_pc = M_RecvSig, run_pc = R_Running, metrics_pc = S_RecvStop,
      serve_pc = H_Serving, notified = True, sigs = [], stop_closed = False, wg = 1,
      listener = Some ''0.0.0.0:9091'', server = Some metrics_server,
      logs = [LogLine LevelInfo ''serving prometheus metrics'' None],
      exited = None, registry = []\<rparr>"
  by (simp add: boot_def run_Cons run_Nil exec_def init_state_def emit_def logLevel_def
        example_env_def example_opts_def metrics_addr_def show_int_def show_nat.simps digit_def)

lemma after_signal_state:
  "after_signal sg =
     \<lparr>main_pc = M_WgWait, run_pc = R_Running, metrics_pc = S_RecvStop,
      serve_pc = H_Serving, notified = True, sigs = [], stop_closed = False, wg = 1,
      listener = Some ''0.0.0.0:9091'', server = Some metrics_server,
      logs = [LogLine LevelInfo ''serving prometheus metrics'' None,
              LogLine LevelInfo ''shutting down'' None],
      exited = None, registry = []\<rparr>"
  unfolding after_signal_def run_append boot_state
  by (simp add: run_Cons run_Nil exec_def emit_def logLevel_def example_env_def example_opts_def)

theorem wait_before_close_never_completes_witness:
  "metrics_pc (run example_env boot (init_state [])) = S_RecvStop \<and>
   awaiting (main_pc (run example_env boot (init_state []))) \<and>
   \<not> stop_closed (run example_env (boot @ [Deliver SIGINT, StepMain, StepMain, StepMain,
        StepMetrics, StepRun, StepMain]) (init_state [])) \<and>
   exited (run example_env (boot @ [Deliver SIGINT, StepMain, StepMain, StepMain,
        StepMetrics, StepRun, StepMain]) (init_state [])) = None"
proof -
  have h: "metrics_pc (run example_env boot (init_state [])) = S_RecvStop \<and>
           awaiting (main_pc (run example_env boot (init_state [])))"
    by (simp add: boot_state)
  from wait_before_close_never_completes [of example_env "[]"] h show ?thesis
    by blast
qed

text \<open>
  C9 as stated fails when main has already returned from \<open>wg.Wait()\<close> before
  ServeMetrics increments the wait group: ServeMetrics then has incremented it and is
  blocked on the stop channel, main's deferred close closes the channel before
  ServeMetrics returns, and the process exits.
\<close>

theorem early_signal_closes_stop_counterexample:
  "metrics_pc (run example_env racy (init_state [])) = S_RecvStop \<and>
   wg (run example_env racy (init_state [])) = 1 \<and>
   \<not> stop_closed (run example_env racy (init_state [])) \<and>
   stop_closed (run example_env (racy @ [StepMain]) (init_state [])) \<and>
   metrics_pc (run example_env (racy @ [StepMain]) (init_state [])) = S_RecvStop \<and>
   exited (run example_env (racy @ [StepMain, StepMain]) (init_state [])) = Some Exit0"
  by (simp add: racy_def run_Cons run_Nil exec_def init_state_def emit_def logLevel_def
        example_env_def example_opts_def)

text \<open>
  C4 at a usual execution: the listener opened and ServeMetrics waits for the stop
  channel when SIGINT or SIGTERM arrives. Main receives the signal, logs and reaches
  \<open>wg.Wait()\<close> with the counter at one; no goroutine can move, and in every
  continuation the stop channel stays open, main stays before the end of \<open>wg.Wait()\<close>
  and the process does not exit.
\<close>

theorem signal_leaves_main_waiting:
  "\<forall>sg. main_pc (after_signal sg) = M_WgWait \<and> wg (after_signal sg) = 1 \<and>
        metrics_pc (after_signal sg) = S_RecvStop \<and> run_pc (after_signal sg) = R_Running \<and>
        \<not> stop_closed (after_signal sg) \<and> exited (after_signal sg) = None \<and>
        step example_env StepMain (after_signal sg) = None \<and>
        step example_env StepRun (after_signal sg) = None \<and>
        step example_env StepMetrics (after_signal sg) = None \<and>
        step example_env StepServe (after_signal sg) = None \<and>
        (\<forall>bs. \<not> stop_closed (run example_env bs (after_signal sg)) \<and>
              awaiting (main_pc (run example_env bs (after_signal sg))) \<and>
              exited (run example_env bs (after_signal sg)) = None)"
proof (intro allI conjI)
  fix sg bs
  have "stuck (after_signal sg)"
    by (simp add: after_signal_state stuck_def)
  then have st: "stuck (run example_env bs (after_signal sg))"
    by (rule stuck_run)
  then show "\<not> stop_closed (run example_env bs (after_signal sg))"
    and "exited (run example_env bs (after_signal sg)) = None"
    and "awaiting (main_pc (run example_env bs (after_signal sg)))"
    by (simp_all add: stuck_def)
qed (simp_all add: after_signal_state metrics_server_def)

subsection \<open>The metrics endpoint\<close>

lemma no_listener_init: "no_listener (init_state r)"
  by (simp add: no_listener_def init_state_def)

lemma no_listener_exec:
  assumes "Listen_error e (metrics_addr (MetricHost (opts e)) (MetricPort (opts e))) = Some err"
    and "no_listener s"
  shows "no_listener (exec e s a)"
proof (cases a)
  case StepMain
  with assms(2) show ?thesis
    by (cases "main_pc s")
       (auto simp: no_listener_def exec_def emit_fields split: option.splits list.splits)
next
  case StepRun
  with assms(2) show ?thesis
    by (auto simp: no_listener_def exec_def split: option.splits run_pc.splits)
next
  case StepMetrics
  with assms show ?thesis
    by (cases "metrics_pc s")
       (auto simp: no_listener_def exec_def emit_fields split: option.splits)
next
  case StepServe
  with assms(2) show ?thesis
    by (auto simp: no_listener_def exec_def split: option.splits)
next
  case (Deliver sg)
  with assms(2) show ?thesis
    by (auto simp: no_listener_def exec_def split: option.splits list.splits)
qed

lemma no_listener_run:
  assumes "Listen_error e (metrics_addr (MetricHost (opts e)) (MetricPort (opts e))) = Some err"
  shows "no_listener (run e as (init_state r))"
  by (rule run_invariant [where P = no_listener])
     (simp_all add: no_listener_init no_listener_exec [OF assms])

text \<open>
  C10. When \<open>net.Listen\<close> fails on the configured address, no execution ever starts
  the HTTP server goroutine, opens a listener or brings ServeMetrics to its receive
  from the stop channel. From its entry ServeMetrics returns in three steps of its own,
  none of which waits: it logs the error and undoes its \<open>wg.Add(1)\<close>; main, the
  controller goroutine, the signals and the stop channel are left as they were and the
  process keeps running.
\<close>

theorem listen_failure_returns:
  assumes "Listen_error e (metrics_addr (MetricHost (opts e)) (MetricPort (opts e))) = Some err"
  shows "(\<forall>as. serve_pc (run e as (init_state r)) = H_NotSpawned \<and>
              server (run e as (init_state r)) = None \<and>
              listener (run e as (init_state r)) = None \<and>
              metrics_pc (run e as (init_state r)) \<noteq> S_RecvStop) \<and>
         (\<forall>s. metrics_pc s = S_Entry \<and> exited s = None \<longrightarrow>
              metrics_pc (run e [StepMetrics, StepMetrics, StepMetrics] s) = S_Returned \<and>
              logs (run e [StepMetrics, StepMetrics, StepMetrics] s) =
                logs s @ [LogLine LevelError ''failed serve prometheus metrics'' (Some err)] \<and>
              wg (run e [StepMetrics, StepMetrics, StepMetrics] s) = wg s \<and>
              main_pc (run e [StepMetrics, StepMetrics, StepMetrics] s) = main_pc s \<and>
              run_pc (run e [StepMetrics, StepMetrics, StepMetrics] s) = run_pc s \<and>
              sigs (run e [StepMetrics, StepMetrics, StepMetrics] s) = sigs s \<and>
              stop_closed (run e [StepMetrics, StepMetrics, StepMetrics] s) = stop_closed s \<and>
              exited (run e [StepMetrics, StepMetrics, StepMetrics] s) = None)"
proof -
  have a: "serve_pc (run e as (init_state r)) = H_NotSpawned \<and>
              server (run e as (init_state r)) = None \<and>
              listener (run e as (init_state r)) = None \<and>
              metrics_pc (run e as (init_state r)) \<noteq> S_RecvStop" for as
    using no_listener_run [OF assms, of as r]
    by (cases "metrics_pc (run e as (init_state r))") (simp_all add: no_listener_def)
  have b: "metrics_pc (run e [StepMetrics, StepMetrics, StepMetrics] s) = S_Returned \<and>
              logs (run e [StepMetrics, StepMetrics, StepMetrics] s) =
                logs s @ [LogLine LevelError ''failed serve prometheus metrics'' (Some err)] \<and>
              wg (run e [StepMetrics, StepMetrics, StepMetrics] s) = wg s \<and>
              main_pc (run e [StepMetrics, StepMetrics, StepMetrics] s) = main_pc s \<and>
              run_pc (run e [StepMetrics, StepMetrics, StepMetrics] s) = run_pc s \<and>
              sigs (run e [StepMetrics, StepMetrics, StepMetrics] s) = sigs s \<and>
              stop_closed (run e [StepMetrics, StepMetrics, StepMetrics] s) = stop_closed s \<and>
              exited (run e [StepMetrics, StepMetrics, StepMetrics] s) = None"
    if "metrics_pc s = S_Entry" "exited s = None" for s
    using that assms
    by (simp add: run_Cons run_Nil exec_def emit_fields logs_emit)
  from a b show ?thesis by blast
qed

theorem listen_failure_returns_witness:
  "Listen_error (example_env\<lparr>Listen_error := (\<lambda>a. Some ''address already in use'')\<rparr>)
     (metrics_addr
        (MetricHost (opts (example_env\<lparr>Listen_error := (\<lambda>a. Some ''address already in use'')\<rparr>)))
        (MetricPort (opts (example_env\<lparr>Listen_error := (\<lambda>a. Some ''address already in use'')\<rparr>))))
     = Some ''address already in use'' \<and>
   run (example_env\<lparr>Listen_error := (\<lambda>a. Some ''address already in use'')\<rparr>)
     [StepMain, StepMain, StepMain, StepMain, StepMetrics, StepMetrics, StepMetrics, StepServe,
      StepRun]
     (init_state []) =
     \<lparr>main_pc = M_RecvSig, run_pc = R_Running, metrics_pc = S_Returned,
      serve_pc = H_NotSpawned, notified = True, sigs = [], stop_closed = False, wg = 0,
      listener = None, server = None,
      logs = [LogLine LevelError ''failed serve prometheus metrics''
                (Some ''address already in use'')],
      exited = None, registry = []\<rparr>"
proof -
  have h: "Listen_error (example_env\<lparr>Listen_error := (\<lambda>a. Some ''address already in use'')\<rparr>)
     (metrics_addr
        (MetricHost (opts (example_env\<lparr>Listen_error := (\<lambda>a. Some ''address already in use'')\<rparr>)))
        (MetricPort (opts (example_env\<lparr>Listen_error := (\<lambda>a. Some ''address already in use'')\<rparr>))))
     = Some ''address already in use''"
    by simp
  have s4: "run (example_env\<lparr>Listen_error := (\<lambda>a. Some ''address already in use'')\<rparr>)
     [StepMain, StepMain, StepMain, StepMain] (init_state []) =
     \<lparr>main_pc = M_RecvSig, run_pc = R_Running, metrics_pc = S_Entry,
      serve_pc = H_NotSpawned, notified = True, sigs = [], stop_closed = False, wg = 0,
      listener = None, server = None, logs = [], exited = None, registry = []\<rparr>"
    by (simp add: run_Cons run_Nil exec_def init_state_def example_env_def)
  have rest: "run (example_env\<lparr>Listen_error := (\<lambda>a. Some ''address already in use'')\<rparr>)
     [StepMain, StepMain, StepMain, StepMain, StepMetrics, StepMetrics, StepMetrics, StepServe,
      StepRun] (init_state []) =
     \<lparr>main_pc = M_RecvSig, run_pc = R_Running, metrics_pc = S_Returned,
      serve_pc = H_NotSpawned, notified = True, sigs = [], stop_closed = False, wg = 0,
      listener = None, server = None,
      logs = [LogLine LevelError ''failed serve prometheus metrics''
                (Some ''address already in use'')],
      exited = None, registry = []\<rparr>"
    using listen_failure_returns [OF h, of "[]"]
    by (simp add: run_Cons run_Nil exec_def init_state_def example_env_def emit_def
          logLevel_def example_opts_def)
  from h rest show ?thesis by blast
qed

lemma served_as_built_init: "served_as_built e (init_state r)"
  by (simp add: served_as_built_def init_state_def)

lemma served_as_built_exec:
  assumes "served_as_built e s"
  shows "served_as_built e (exec e s a)"
proof (cases a)
  case StepMain
  with assms show ?thesis
    by (cases "main_pc s")
       (auto simp: served_as_built_def exec_def emit_fields split: option.splits list.splits)
next
  case StepRun
  with assms show ?thesis
    by (auto simp: served_as_built_def exec_def split: option.splits run_pc.splits)
next
  case StepMetrics
  with assms show ?thesis
    by (cases "metrics_pc s")
       (auto simp: served_as_built_def exec_def emit_fields split: option.splits)
next
  case StepServe
  with assms show ?thesis
    by (cases "serve_pc s")
       (auto simp: served_as_built_def exec_def emit_fields split: option.splits)
next
  case (Deliver sg)
  with assms show ?thesis
    by (auto simp: served_as_built_def exec_def split: option.splits list.splits)
qed

lemma served_as_built_run: "served_as_built e (run e as (init_state r))"
  by (rule run_invariant [where P = "served_as_built e"])
     (simp_all add: served_as_built_init served_as_built_exec)

text \<open>
  C5 (as amended). In every execution, a server that has been built has a read-header
  timeout of five seconds and hands every request path, \<open>/metrics\<close> among them, to
  the Prometheus handler; a listener that is open is bound to \<open>host.String():port\<close>.
  When \<open>controller.New\<close> and \<open>net.Listen\<close> succeed, the usual start reaches the
  serving state with that server and that listener.
\<close>

theorem metrics_served_on_every_path:
  "(\<forall>as srv. server (run e as (init_state r)) = Some srv \<longrightarrow>
       ReadHeaderTimeout srv = 5 * Second \<and> serves srv ''/metrics'' = PromHandler \<and>
       (\<forall>path. serves srv path = PromHandler)) \<and>
   (\<forall>as a. listener (run e as (init_state r)) = Some a \<longrightarrow>
       a = IP_String (MetricHost (opts e)) @ '':'' @ show_int (MetricPort (opts e))) \<and>
   (New_error e = None \<and>
    Listen_error e (metrics_addr (MetricHost (opts e)) (MetricPort (opts e))) = None \<longrightarrow>
      serve_pc (run e boot (init_state r)) = H_Serving \<and>
      server (run e boot (init_state r)) = Some metrics_server \<and>
      listener (run e boot (init_state r)) =
        Some (metrics_addr (MetricHost (opts e)) (MetricPort (opts e))))"
proof -
  have a: "ReadHeaderTimeout srv = 5 * Second \<and> serves srv ''/metrics'' = PromHandler \<and>
       (\<forall>path. serves srv path = PromHandler)"
    if "server (run e as (init_state r)) = Some srv" for as srv
    using served_as_built_run [of e as r] that
    by (simp add: served_as_built_def metrics_server_def)
  have b: "a = IP_String (MetricHost (opts e)) @ '':'' @ show_int (MetricPort (opts e))"
    if "listener (run e as (init_state r)) = Some a" for as a
    using served_as_built_run [of e as r] that
    by (simp add: served_as_built_def metrics_addr_def)
  have c: "serve_pc (run e boot (init_state r)) = H_Serving \<and>
      server (run e boot (init_state r)) = Some metrics_server \<and>
      listener (run e boot (init_state r)) =
        Some (metrics_addr (MetricHost (opts e)) (MetricPort (opts e)))"
    if "New_error e = None"
       "Listen_error e (metrics_addr (MetricHost (opts e)) (MetricPort (opts e))) = None"
    using that
    by (simp add: boot_def run_Cons run_Nil exec_def init_state_def emit_fields)
  from a b c show ?thesis by blast
qed

theorem metrics_served_on_every_path_witness:
  "server (run example_env boot (init_state [])) = Some metrics_server \<and>
   listener (run example_env boot (init_state [])) = Some ''0.0.0.0:9091'' \<and>
   ReadHeaderTimeout metrics_server = 5000000000 \<and>
   serves metrics_server ''/metrics'' = PromHandler"
proof -
  have s: "server (run example_env boot (init_state [])) = Some metrics_server"
    and l: "listener (run example_env boot (init_state [])) = Some ''0.0.0.0:9091''"
    by (simp_all add: boot_state)
  from metrics_served_on_every_path [of example_env "[]"] s
  have "ReadHeaderTimeout metrics_server = 5 * Second \<and>
        serves metrics_server ''/metrics'' = PromHandler"
    by blast
  with s l show ?thesis
    by (simp add: Second_def Nanosecond_def)
qed

text \<open>
  C5 as stated fails: the server that serves after the usual start answers a request
  to \<open>/healthz\<close> with the Prometheus handler.
\<close>

theorem other_paths_get_prometheus_counterexample:
  "serve_pc (run example_env boot (init_state [])) = H_Serving \<and>
   server (run example_env boot (init_state [])) = Some metrics_server \<and>
   serves metrics_server ''/healthz'' = PromHandler"
  by (simp add: boot_state metrics_server_def)

section \<open>Properties of the counters' registration\<close>

lemma fq_names:
  "map fqName package_counters =
     [''kube_fip_controller_associate_instance_fip_errors_total'',
      ''kube_fip_controller_create_fip_errors_total'',
      ''kube_fip_controller_successful_operations_total'',
      ''kube_fip_controller_failed_operations_total'']"
  by (simp add: package_counters_def fqName_def BuildFQName_def metricNamespace_def
        MetricErrorAssociateInstanceAndFIP_def MetricErrorCreateFIP_def
        MetricSuccessfulOperations_def MetricFailedOperations_def)

lemma MustRegister_fresh:
  assumes "distinct (map fqName cs)" and "set (map fqName cs) \<inter> set r = {}"
  shows "MustRegister cs r = Inr (r @ map fqName cs)"
  using assms
proof (induction cs arbitrary: r)
  case Nil
  then show ?case by simp
next
  case (Cons c cs)
  have fresh: "fqName c \<notin> set r"
    using Cons.prems(2) by auto
  have "MustRegister cs (r @ [fqName c]) = Inr ((r @ [fqName c]) @ map fqName cs)"
  proof (rule Cons.IH)
    show "distinct (map fqName cs)"
      using Cons.prems(1) by simp
    show "set (map fqName cs) \<inter> set (r @ [fqName c]) = {}"
      using Cons.prems by auto
  qed
  with fresh show ?case
    by (simp add: Register_def)
qed

lemma registry_exec: "registry (exec e s a) = registry s"
proof (cases a)
  case StepMain
  then show ?thesis
    by (cases "main_pc s") (auto simp: exec_def emit_fields split: option.splits list.splits)
next
  case StepRun
  then show ?thesis
    by (auto simp: exec_def split: option.splits run_pc.splits)
next
  case StepMetrics
  then show ?thesis
    by (cases "metrics_pc s") (auto simp: exec_def emit_fields split: option.splits)
next
  case StepServe
  then show ?thesis
    by (cases "serve_pc s") (auto simp: exec_def emit_fields split: option.splits)
next
  case (Deliver sg)
  then show ?thesis
    by (auto simp: exec_def split: option.splits list.splits)
qed

lemma registry_run: "registry (run e as s) = registry s"
  by (induction as arbitrary: s) (simp_all add: run_Nil run_Cons registry_exec)

lemma count_list_distinct: "distinct xs \<Longrightarrow> x \<in> set xs \<Longrightarrow> count_list xs x = 1"
  by (induction xs) auto

lemma distinct_fq: "distinct (map fqName package_counters)"
  unfolding fq_names by simp

text \<open>
  C2. The package declares four counters, named \<open>associate_instance_fip_errors_total\<close>,
  \<open>create_fip_errors_total\<close>, \<open>successful_operations_total\<close> and
  \<open>failed_operations_total\<close>, all in the namespace \<open>kube_fip_controller\<close>. When the
  library's own registrations hold none of their names, package initialisation registers
  each exactly once and then main starts, with no goroutine of the program spawned yet;
  no step of the process changes the registry afterwards.
\<close>

theorem four_counters_registered_once:
  assumes "set r0 \<inter> set (map fqName package_counters) = {}"
  shows "map Name package_counters =
           [''associate_instance_fip_errors_total'', ''create_fip_errors_total'',
            ''successful_operations_total'', ''failed_operations_total''] \<and>
         map Namespace package_counters =
           [''kube_fip_controller'', ''kube_fip_controller'', ''kube_fip_controller'',
            ''kube_fip_controller''] \<and>
         process_start r0 = Inr (init_state (r0 @ map fqName package_counters)) \<and>
         (\<forall>c \<in> set package_counters.
            count_list (r0 @ map fqName package_counters) (fqName c) = 1) \<and>
         (\<forall>e as. registry (run e as (init_state (r0 @ map fqName package_counters))) =
                   r0 @ map fqName package_counters) \<and>
         run_pc (init_state (r0 @ map fqName package_counters)) = R_NotSpawned \<and>
         metrics_pc (init_state (r0 @ map fqName package_counters)) = S_NotSpawned \<and>
         serve_pc (init_state (r0 @ map fqName package_counters)) = H_NotSpawned \<and>
         main_pc (init_state (r0 @ map fqName package_counters)) = M_Init"
proof -
  have names: "map Name package_counters =
           [''associate_instance_fip_errors_total'', ''create_fip_errors_total'',
            ''successful_operations_total'', ''failed_operations_total'']"
    and spaces: "map Namespace package_counters =
           [''kube_fip_controller'', ''kube_fip_controller'', ''kube_fip_controller'',
            ''kube_fip_controller'']"
    by (simp_all add: package_counters_def metricNamespace_def
        MetricErrorAssociateInstanceAndFIP_def MetricErrorCreateFIP_def
        MetricSuccessfulOperations_def MetricFailedOperations_def)
  have disj: "set (map fqName package_counters) \<inter> set r0 = {}"
    using assms by (simp add: Int_commute)
  have "MustRegister package_counters r0 = Inr (r0 @ map fqName package_counters)"
    by (rule MustRegister_fresh [OF distinct_fq disj])
  then have start: "process_start r0 = Inr (init_state (r0 @ map fqName package_counters))"
    by (simp add: process_start_def metrics_init_def)
  have once: "count_list (r0 @ map fqName package_counters) (fqName c) = 1"
    if "c \<in> set package_counters" for c
  proof -
    have "fqName c \<in> set (map fqName package_counters)"
      using that by simp
    moreover from this have "fqName c \<notin> set r0"
      using assms by auto
    ultimately show ?thesis
      using distinct_fq by (simp add: count_list_distinct)
  qed
  have kept: "registry (run e as (init_state (r0 @ map fqName package_counters))) =
                   r0 @ map fqName package_counters" for e as
    by (simp add: registry_run init_state_def)
  have idle: "run_pc (init_state (r0 @ map fqName package_counters)) = R_NotSpawned \<and>
         metrics_pc (init_state (r0 @ map fqName package_counters)) = S_NotSpawned \<and>
         serve_pc (init_state (r0 @ map fqName package_counters)) = H_NotSpawned \<and>
         main_pc (init_state (r0 @ map fqName package_counters)) = M_Init"
    by (simp add: init_state_def)
  from names spaces start once kept idle show ?thesis
    by blast
qed

theorem four_counters_registered_once_witness:
  "set go_collectors \<inter> set (map fqName package_counters) = {} \<and>
   process_start go_collectors =
     Inr (init_state
       [''go_goroutines'', ''process_cpu_seconds_total'',
        ''kube_fip_controller_associate_instance_fip_errors_total'',
        ''kube_fip_controller_create_fip_errors_total'',
        ''kube_fip_controller_successful_operations_total'',
        ''kube_fip_controller_failed_operations_total''])"
proof -
  have h: "set go_collectors \<inter> set (map fqName package_counters) = {}"
    unfolding fq_names by (simp add: go_collectors_def)
  from four_counters_registered_once [OF h] h show ?thesis
    by (simp add: fq_names go_collectors_def)
qed

section \<open>Properties of the command line\<close>

lemmas flag_defs =
  kubeconfig_flag_def debug_flag_def threadiness_flag_def recheck_interval_flag_def
  metric_host_flag_def metric_port_flag_def default_floating_network_flag_def
  default_floating_subnet_flag_def config_flag_def version_flag_def

lemma example_parsers_read_defaults: "reads_defaults example_parsers"
  by (simp add: reads_defaults_def example_parsers_def read_bool_def read_int_def read_nat_def
        digit_val_def read_duration_def unit_ns_def read_ip_def read_byte_def
        Minute_def Second_def Nanosecond_def)

lemma example_parse:
  "Parse example_parsers example_args =
     Parsed \<lparr>KubeConfig = '''', IsDebug = False, Threadiness = 4,
             RecheckInterval = 600000000000, MetricHost = IPv4 0 0 0 0, MetricPort = 9091,
             DefaultFloatingNetwork = ''net'', DefaultFloatingSubnet = ''sub'',
             ConfigPath = ''/etc/fip.yaml''\<rparr>"
  by (simp add: Parse_def known_def example_args_def flags_def flag_defs apply_flag_def zero_Options_def
        example_parsers_def read_bool_def read_int_def read_nat_def
        digit_val_def read_duration_def unit_ns_def read_ip_def read_byte_def
        Minute_def Second_def Nanosecond_def)

lemma flag_names:
  "map flag_name flags =
     [''kubeconfig'', ''debug'', ''threadiness'', ''recheck-interval'', ''metric-host'',
      ''metric-port'', ''default-floating-network'', ''default-floating-subnet'', ''config'',
      ''version'']"
  by (simp add: flags_def flag_defs)

lemma apply_flag_string_optional:
  assumes "apply_flag p args f o' = Inr o1" and "flag_target f = StringVar g"
    and "flag_default f = None" and "\<not> flag_required f"
  shows "o1 = (case map_of args (flag_name f) of None \<Rightarrow> o' | Some t \<Rightarrow> g t o')"
  using assms by (auto simp: apply_flag_def split: option.splits)

lemma apply_flag_string_required:
  assumes "apply_flag p args f o' = Inr o1" and "flag_target f = StringVar g"
    and "flag_default f = None" and "flag_required f"
  shows "\<exists>t. map_of args (flag_name f) = Some t \<and> o1 = g t o'"
  using assms by (auto simp: apply_flag_def split: option.splits)

lemma apply_flag_bool_default:
  assumes "apply_flag p args f o' = Inr o1" and "flag_target f = BoolVar g"
    and "flag_default f = Some d" and "parseBool p d = Some v"
  shows "\<exists>b. o1 = g b o' \<and>
           (case map_of args (flag_name f) of None \<Rightarrow> b = v | Some t \<Rightarrow> parseBool p t = Some b)"
  using assms by (auto simp: apply_flag_def split: option.splits)

lemma apply_flag_int_default:
  assumes "apply_flag p args f o' = Inr o1" and "flag_target f = IntVar g"
    and "flag_default f = Some d" and "parseInt p d = Some v"
  shows "\<exists>b. o1 = g b o' \<and>
           (case map_of args (flag_name f) of None \<Rightarrow> b = v | Some t \<Rightarrow> parseInt p t = Some b)"
  using assms by (auto simp: apply_flag_def split: option.splits)

lemma apply_flag_duration_default:
  assumes "apply_flag p args f o' = Inr o1" and "flag_target f = DurationVar g"
    and "flag_default f = Some d" and "parseDuration p d = Some v"
  shows "\<exists>b. o1 = g b o' \<and>
           (case map_of args (flag_name f) of None \<Rightarrow> b = v
            | Some t \<Rightarrow> parseDuration p t = Some b)"
  using assms by (auto simp: apply_flag_def split: option.splits)

lemma apply_flag_ip_default:
  assumes "apply_flag p args f o' = Inr o1" and "flag_target f = IPVar g"
    and "flag_default f = Some d" and "parseIP p d = Some v"
  shows "\<exists>b. o1 = g b o' \<and>
           (case map_of args (flag_name f) of None \<Rightarrow> b = v | Some t \<Rightarrow> parseIP p t = Some b)"
  using assms by (auto simp: apply_flag_def split: option.splits)

lemma apply_flag_version:
  assumes "apply_flag p args f o' = Inr o1" and "flag_target f = VersionFlag"
  shows "o1 = o'"
  using assms by (auto simp: apply_flag_def split: option.splits if_splits)

lemma Parse_Parsed:
  assumes "Parse p args = Parsed o'"
  shows "apply_flags p args flags zero_Options = Inr o'" and "map_of args ''version'' = None"
proof -
  from assms have nv: "''version'' \<notin> set (map fst (known args))" and k: "known args = args"
    and a: "apply_flags p args flags zero_Options = Inr o'"
    by (auto simp: Parse_def split: if_splits sum.splits)
  from a show "apply_flags p args flags zero_Options = Inr o'" .
  from nv k have "''version'' \<notin> fst ` set args"
    by simp
  then show "map_of args ''version'' = None"
    by (simp add: map_of_eq_None_iff)
qed

lemma parsed_fields:
  assumes rd: "reads_defaults p" and parsed: "Parse p args = Parsed o'"
  shows "KubeConfig o' = (case map_of args ''kubeconfig'' of None \<Rightarrow> '''' | Some t \<Rightarrow> t) \<and>
         (case map_of args ''debug'' of None \<Rightarrow> IsDebug o' = False
          | Some t \<Rightarrow> parseBool p t = Some (IsDebug o')) \<and>
         (case map_of args ''threadiness'' of None \<Rightarrow> Threadiness o' = 1
          | Some t \<Rightarrow> parseInt p t = Some (Threadiness o')) \<and>
         (case map_of args ''recheck-interval'' of None \<Rightarrow> RecheckInterval o' = 10 * Minute
          | Some t \<Rightarrow> parseDuration p t = Some (RecheckInterval o')) \<and>
         (case map_of args ''metric-host'' of None \<Rightarrow> MetricHost o' = IPv4 0 0 0 0
          | Some t \<Rightarrow> parseIP p t = Some (MetricHost o')) \<and>
         (case map_of args ''metric-port'' of None \<Rightarrow> MetricPort o' = 9091
          | Some t \<Rightarrow> parseInt p t = Some (MetricPort o')) \<and>
         map_of args ''default-floating-network'' = Some (DefaultFloatingNetwork o') \<and>
         map_of args ''default-floating-subnet'' = Some (DefaultFloatingSubnet o') \<and>
         map_of args ''config'' = Some (ConfigPath o')"
proof -
  have "apply_flags p args flags zero_Options = Inr o'"
    by (rule Parse_Parsed(1) [OF parsed])
  then obtain o1 o2 o3 o4 o5 o6 o7 o8 o9 where
    s1: "apply_flag p args kubeconfig_flag zero_Options = Inr o1" and
    s2: "apply_flag p args debug_flag o1 = Inr o2" and
    s3: "apply_flag p args threadiness_flag o2 = Inr o3" and
    s4: "apply_flag p args recheck_interval_flag o3 = Inr o4" and
    s5: "apply_flag p args metric_host_flag o4 = Inr o5" and
    s6: "apply_flag p args metric_port_flag o5 = Inr o6" and
    s7: "apply_flag p args default_floating_network_flag o6 = Inr o7" and
    s8: "apply_flag p args default_floating_subnet_flag o7 = Inr o8" and
    s9: "apply_flag p args config_flag o8 = Inr o9" and
    s10: "apply_flag p args version_flag o9 = Inr o'"
    by (auto simp: flags_def split: sum.splits)
  have e1: "o1 = (case map_of args ''kubeconfig'' of None \<Rightarrow> zero_Options
                  | Some t \<Rightarrow> zero_Options\<lparr>KubeConfig := t\<rparr>)"
    using apply_flag_string_optional [OF s1] by (simp add: kubeconfig_flag_def)
  obtain b2 where e2: "o2 = o1\<lparr>IsDebug := b2\<rparr>"
    and v2: "(case map_of args ''debug'' of None \<Rightarrow> b2 = False | Some t \<Rightarrow> parseBool p t = Some b2)"
    using apply_flag_bool_default [OF s2, of _ "''false''" False] rd
    by (auto simp: debug_flag_def reads_defaults_def)
  obtain b3 where e3: "o3 = o2\<lparr>Threadiness := b3\<rparr>"
    and v3: "(case map_of args ''threadiness'' of None \<Rightarrow> b3 = 1 | Some t \<Rightarrow> parseInt p t = Some b3)"
    using apply_flag_int_default [OF s3, of _ "''1''" 1] rd
    by (auto simp: threadiness_flag_def reads_defaults_def)
  obtain b4 where e4: "o4 = o3\<lparr>RecheckInterval := b4\<rparr>"
    and v4: "(case map_of args ''recheck-interval'' of None \<Rightarrow> b4 = 10 * Minute
              | Some t \<Rightarrow> parseDuration p t = Some b4)"
    using apply_flag_duration_default [OF s4, of _ "''10m''" "10 * Minute"] rd
    by (auto simp: recheck_interval_flag_def reads_defaults_def)
  obtain b5 where e5: "o5 = o4\<lparr>MetricHost := b5\<rparr>"
    and v5: "(case map_of args ''metric-host'' of None \<Rightarrow> b5 = IPv4 0 0 0 0
              | Some t \<Rightarrow> parseIP p t = Some b5)"
    using apply_flag_ip_default [OF s5, of _ "''0.0.0.0''" "IPv4 0 0 0 0"] rd
    by (auto simp: metric_host_flag_def reads_defaults_def)
  obtain b6 where e6: "o6 = o5\<lparr>MetricPort := b6\<rparr>"
    and v6: "(case map_of args ''metric-port'' of None \<Rightarrow> b6 = 9091 | Some t \<Rightarrow> parseInt p t = Some b6)"
    using apply_flag_int_default [OF s6, of _ "''9091''" 9091] rd
    by (auto simp: metric_port_flag_def reads_defaults_def)
  obtain t7 where e7: "o7 = o6\<lparr>DefaultFloatingNetwork := t7\<rparr>"
    and v7: "map_of args ''default-floating-network'' = Some t7"
    using apply_flag_string_required [OF s7] by (auto simp: default_floating_network_flag_def)
  obtain t8 where e8: "o8 = o7\<lparr>DefaultFloatingSubnet := t8\<rparr>"
    and v8: "map_of args ''default-floating-subnet'' = Some t8"
    using apply_flag_string_required [OF s8] by (auto simp: default_floating_subnet_flag_def)
  obtain t9 where e9: "o9 = o8\<lparr>ConfigPath := t9\<rparr>"
    and v9: "map_of args ''config'' = Some t9"
    using apply_flag_string_required [OF s9] by (auto simp: config_flag_def)
  have e10: "o' = o9"
    using apply_flag_version [OF s10] by (simp add: version_flag_def)
  have k: "KubeConfig o' = (case map_of args ''kubeconfig'' of None \<Rightarrow> '''' | Some t \<Rightarrow> t)"
    by (simp add: e10 e9 e8 e7 e6 e5 e4 e3 e2 e1 zero_Options_def split: option.splits)
  have f: "IsDebug o' = b2" "Threadiness o' = b3" "RecheckInterval o' = b4"
    "MetricHost o' = b5" "MetricPort o' = b6" "DefaultFloatingNetwork o' = t7"
    "DefaultFloatingSubnet o' = t8" "ConfigPath o' = t9"
    by (simp_all add: e10 e9 e8 e7 e6 e5 e4 e3 e2)
  from k v2 v3 v4 v5 v6 v7 v8 v9 show ?thesis
    unfolding f by simp
qed

lemma known_all:
  assumes "fst ` set args \<subseteq> set (map flag_name flags)"
  shows "known args = args"
  unfolding known_def using assms by (auto simp: takeWhile_eq_all_conv)

lemma known_subset: "set (map fst (known args)) \<subseteq> fst ` set args"
  unfolding known_def by (auto dest: set_takeWhileD)

lemma parsed_defaults:
  assumes rd: "reads_defaults p" and parsed: "Parse p args = Parsed o'"
  shows "(map_of args ''debug'' = None \<longrightarrow> IsDebug o' = False) \<and>
         (map_of args ''threadiness'' = None \<longrightarrow> Threadiness o' = 1) \<and>
         (map_of args ''recheck-interval'' = None \<longrightarrow> RecheckInterval o' = 10 * Minute) \<and>
         (map_of args ''metric-host'' = None \<longrightarrow> MetricHost o' = IPv4 0 0 0 0) \<and>
         (map_of args ''metric-port'' = None \<longrightarrow> MetricPort o' = 9091) \<and>
         (map_of args ''kubeconfig'' = None \<longrightarrow> KubeConfig o' = '''')"
proof -
  note pf = parsed_fields [OF rd parsed]
  have k: "KubeConfig o' = (case map_of args ''kubeconfig'' of None \<Rightarrow> '''' | Some t \<Rightarrow> t)"
    using pf by (rule conjunct1)
  have c1: "map_of args ''kubeconfig'' = None \<longrightarrow> KubeConfig o' = ''''"
    unfolding k by simp
  have c2: "map_of args ''debug'' = None \<longrightarrow> IsDebug o' = False"
    using pf by (cases "map_of args ''debug''") simp_all
  have c3: "map_of args ''threadiness'' = None \<longrightarrow> Threadiness o' = 1"
    using pf by (cases "map_of args ''threadiness''") simp_all
  have c4: "map_of args ''recheck-interval'' = None \<longrightarrow> RecheckInterval o' = 10 * Minute"
    using pf by (cases "map_of args ''recheck-interval''") simp_all
  have c5: "map_of args ''metric-host'' = None \<longrightarrow> MetricHost o' = IPv4 0 0 0 0"
    using pf by (cases "map_of args ''metric-host''") simp_all
  have c6: "map_of args ''metric-port'' = None \<longrightarrow> MetricPort o' = 9091"
    using pf by (cases "map_of args ''metric-port''") simp_all
  show ?thesis
    by (rule conjI [OF c2 conjI [OF c3 conjI [OF c4 conjI [OF c5 conjI [OF c6 c1]]]]])
qed

lemma parsed_given:
  assumes rd: "reads_defaults p" and parsed: "Parse p args = Parsed o'"
  shows "(\<forall>t. map_of args ''debug'' = Some t \<longrightarrow> parseBool p t = Some (IsDebug o')) \<and>
         (\<forall>t. map_of args ''threadiness'' = Some t \<longrightarrow> parseInt p t = Some (Threadiness o')) \<and>
         (\<forall>t. map_of args ''recheck-interval'' = Some t \<longrightarrow>
             parseDuration p t = Some (RecheckInterval o')) \<and>
         (\<forall>t. map_of args ''metric-host'' = Some t \<longrightarrow> parseIP p t = Some (MetricHost o')) \<and>
         (\<forall>t. map_of args ''metric-port'' = Some t \<longrightarrow> parseInt p t = Some (MetricPort o')) \<and>
         (\<forall>t. map_of args ''kubeconfig'' = Some t \<longrightarrow> KubeConfig o' = t)"
proof -
  note pf = parsed_fields [OF rd parsed]
  have k: "KubeConfig o' = (case map_of args ''kubeconfig'' of None \<Rightarrow> '''' | Some t \<Rightarrow> t)"
    using pf by (rule conjunct1)
  have c1: "\<forall>t. map_of args ''kubeconfig'' = Some t \<longrightarrow> KubeConfig o' = t"
    unfolding k by simp
  have c2: "\<forall>t. map_of args ''debug'' = Some t \<longrightarrow> parseBool p t = Some (IsDebug o')"
    using pf by (cases "map_of args ''debug''") simp_all
  have c3: "\<forall>t. map_of args ''threadiness'' = Some t \<longrightarrow> parseInt p t = Some (Threadiness o')"
    using pf by (cases "map_of args ''threadiness''") simp_all
  have c4: "\<forall>t. map_of args ''recheck-interval'' = Some t \<longrightarrow>
             parseDuration p t = Some (RecheckInterval o')"
    using pf by (cases "map_of args ''recheck-interval''") simp_all
  have c5: "\<forall>t. map_of args ''metric-host'' = Some t \<longrightarrow> parseIP p t = Some (MetricHost o')"
    using pf by (cases "map_of args ''metric-host''") simp_all
  have c6: "\<forall>t. map_of args ''metric-port'' = Some t \<longrightarrow> parseInt p t = Some (MetricPort o')"
    using pf by (cases "map_of args ''metric-port''") simp_all
  show ?thesis
    by (rule conjI [OF c2 conjI [OF c3 conjI [OF c4 conjI [OF c5 conjI [OF c6 c1]]]]])
qed

lemma parsed_required:
  assumes rd: "reads_defaults p" and parsed: "Parse p args = Parsed o'"
  shows "map_of args ''default-floating-network'' = Some (DefaultFloatingNetwork o') \<and>
         map_of args ''default-floating-subnet'' = Some (DefaultFloatingSubnet o') \<and>
         map_of args ''config'' = Some (ConfigPath o') \<and>
         map_of args ''version'' = None"
  using parsed_fields [OF rd parsed] Parse_Parsed(2) [OF parsed] by simp

lemma version_prints:
  assumes "''version'' \<in> fst ` set args" and "fst ` set args \<subseteq> set (map flag_name flags)"
  shows "Parse p args = Version_printed"
  using assms(1) known_all [OF assms(2)] by (simp add: Parse_def)

lemma missing_required_is_usage_error:
  assumes rd: "reads_defaults p" and nv: "''version'' \<notin> fst ` set args"
    and missing: "map_of args ''default-floating-network'' = None \<or>
         map_of args ''default-floating-subnet'' = None \<or> map_of args ''config'' = None"
  shows "\<exists>msg. Parse p args = Usage_error msg"
proof (cases "Parse p args")
  case (Usage_error msg)
  then show ?thesis by blast
next
  case Version_printed
  then have "''version'' \<in> set (map fst (known args))"
    by (simp add: Parse_def split: if_splits sum.splits)
  with known_subset [of args] nv show ?thesis
    by blast
next
  case (Parsed o')
  from parsed_required [OF rd Parsed] missing show ?thesis
    by simp
qed

text \<open>
  C1 (as amended). \<open>init\<close> declares the nine listed flags and, through
  \<open>kingpin.Version\<close>, the flag \<open>--version\<close>; the required ones are
  \<open>--default-floating-network\<close>, \<open>--default-floating-subnet\<close> and \<open>--config\<close>, and the
  defaults are \<open>false\<close>, \<open>1\<close>, \<open>10m\<close>, \<open>0.0.0.0\<close> and \<open>9091\<close>. A command line of
  declared flags with \<open>--version\<close> among them prints the version, whatever else it
  gives or omits. Whenever parsing yields options, each flag with a default that was
  omitted has left its field at the default and each one given has its value read into
  its field, \<open>--kubeconfig\<close> is the given text or empty, the three required flags were
  given and their fields hold the given texts, and \<open>--version\<close> was not given. A
  command line without \<open>--version\<close> that omits a required flag is a usage error.
\<close>

theorem flags_defaults_and_required:
  assumes "reads_defaults p"
  shows
    "(map flag_name flags = listed_flags @ [''version''] \<and>
      map flag_name (filter flag_required flags) =
        [''default-floating-network'', ''default-floating-subnet'', ''config''] \<and>
      map flag_default flags =
        [None, Some ''false'', Some ''1'', Some ''10m'', Some ''0.0.0.0'', Some ''9091'',
         None, None, None, None]) \<and>
     (\<forall>args. ''version'' \<in> fst ` set args \<and> fst ` set args \<subseteq> set (map flag_name flags) \<longrightarrow>
        Parse p args = Version_printed) \<and>
     (\<forall>args o'. Parse p args = Parsed o' \<longrightarrow>
        ((map_of args ''debug'' = None \<longrightarrow> IsDebug o' = False) \<and>
         (map_of args ''threadiness'' = None \<longrightarrow> Threadiness o' = 1) \<and>
         (map_of args ''recheck-interval'' = None \<longrightarrow> RecheckInterval o' = 10 * Minute) \<and>
         (map_of args ''metric-host'' = None \<longrightarrow> MetricHost o' = IPv4 0 0 0 0) \<and>
         (map_of args ''metric-port'' = None \<longrightarrow> MetricPort o' = 9091) \<and>
         (map_of args ''kubeconfig'' = None \<longrightarrow> KubeConfig o' = '''')) \<and>
        ((\<forall>t. map_of args ''debug'' = Some t \<longrightarrow> parseBool p t = Some (IsDebug o')) \<and>
         (\<forall>t. map_of args ''threadiness'' = Some t \<longrightarrow> parseInt p t = Some (Threadiness o')) \<and>
         (\<forall>t. map_of args ''recheck-interval'' = Some t \<longrightarrow>
             parseDuration p t = Some (RecheckInterval o')) \<and>
         (\<forall>t. map_of args ''metric-host'' = Some t \<longrightarrow> parseIP p t = Some (MetricHost o')) \<and>
         (\<forall>t. map_of args ''metric-port'' = Some t \<longrightarrow> parseInt p t = Some (MetricPort o')) \<and>
         (\<forall>t. map_of args ''kubeconfig'' = Some t \<longrightarrow> KubeConfig o' = t)) \<and>
        (map_of args ''default-floating-network'' = Some (DefaultFloatingNetwork o') \<and>
         map_of args ''default-floating-subnet'' = Some (DefaultFloatingSubnet o') \<and>
         map_of args ''config'' = Some (ConfigPath o') \<and>
         map_of args ''version'' = None)) \<and>
     (\<forall>args. ''version'' \<notin> fst ` set args \<and>
        (map_of args ''default-floating-network'' = None \<or>
         map_of args ''default-floating-subnet'' = None \<or> map_of args ''config'' = None) \<longrightarrow>
        (\<exists>msg. Parse p args = Usage_error msg))"
proof (intro conjI allI impI)
  show "map flag_name flags = listed_flags @ [''version'']"
    by (simp add: flags_def flag_defs listed_flags_def)
  show "map flag_name (filter flag_required flags) =
        [''default-floating-network'', ''default-floating-subnet'', ''config'']"
    by (simp add: flags_def flag_defs)
  show "map flag_default flags =
        [None, Some ''false'', Some ''1'', Some ''10m'', Some ''0.0.0.0'', Some ''9091'',
         None, None, None, None]"
    by (simp add: flags_def flag_defs)
next
  fix args :: "(string \<times> string) list"
  assume "''version'' \<in> fst ` set args \<and> fst ` set args \<subseteq> set (map flag_name flags)"
  then show "Parse p args = Version_printed"
    using version_prints by blast
next
  fix args :: "(string \<times> string) list"
  assume "''version'' \<notin> fst ` set args \<and>
        (map_of args ''default-floating-network'' = None \<or>
         map_of args ''default-floating-subnet'' = None \<or> map_of args ''config'' = None)"
  then show "\<exists>msg. Parse p args = Usage_error msg"
    using missing_required_is_usage_error [OF assms] by blast
qed (use parsed_defaults [OF assms] parsed_given [OF assms] parsed_required [OF assms] in blast)+

theorem flags_defaults_and_required_witness:
  "reads_defaults example_parsers \<and>
   Parse example_parsers example_args =
     Parsed \<lparr>KubeConfig = '''', IsDebug = False, Threadiness = 4,
             RecheckInterval = 600000000000, MetricHost = IPv4 0 0 0 0, MetricPort = 9091,
             DefaultFloatingNetwork = ''net'', DefaultFloatingSubnet = ''sub'',
             ConfigPath = ''/etc/fip.yaml''\<rparr> \<and>
   map_of example_args ''recheck-interval'' = None \<and>
   map_of example_args ''config'' = Some ''/etc/fip.yaml'' \<and>
   Parse example_parsers [(''version'', ''true'')] = Version_printed"
proof -
  note h = example_parsers_read_defaults
  have "\<forall>args. ''version'' \<in> fst ` set args \<and> fst ` set args \<subseteq> set (map flag_name flags) \<longrightarrow>
        Parse example_parsers args = Version_printed"
    using flags_defaults_and_required [OF h] by (elim conjE)
  then have v: "Parse example_parsers [(''version'', ''true'')] = Version_printed"
    by (simp add: flag_names)
  have m: "map_of example_args ''recheck-interval'' = None"
    "map_of example_args ''config'' = Some ''/etc/fip.yaml''"
    by (simp_all add: example_args_def)
  show ?thesis
    by (rule conjI [OF h conjI [OF example_parse conjI [OF m(1) conjI [OF m(2) v]]]])
qed

text \<open>
  C1 as stated fails: \<open>--version\<close> is none of the nine listed flags, and the command
  line that gives it alone, with no required flag, is accepted.
\<close>

theorem version_flag_accepted_counterexample:
  "''version'' \<notin> set listed_flags \<and>
   map_of [(''version'', ''true'')] ''config'' = None \<and>
   Parse example_parsers [(''version'', ''true'')] = Version_printed"
  by (simp add: listed_flags_def Parse_def known_def flag_names)

section \<open>Properties of the controller\<close>

subsection \<open>What a call to the cluster or the cloud leaves alone\<close>

lemma advances_refl: "advances w w"
  by (simp add: advances_def)

lemma advances_trans: "advances w w' \<Longrightarrow> advances w' w'' \<Longrightarrow> advances w w''"
  unfolding advances_def by (metis order_trans)

lemma advances_call: "advances w (snd (call r answer w))"
  by (simp add: call_def advances_def)

lemma advances_Inc: "advances w (Inc c w)"
  by (simp add: Inc_def advances_def)

lemma advances_and_then:
  assumes m: "\<And>w. advances w (snd (m w))" and f: "\<And>x w. advances w (snd (f x w))"
  shows "advances w (snd (and_then m f w))"
proof (cases "m w")
  case (Pair r w')
  have mw: "advances w w'"
    using m [of w] Pair by simp
  show ?thesis
  proof (cases r)
    case (Inl err)
    with Pair mw show ?thesis
      by (simp add: and_then_def)
  next
    case (Inr x)
    with Pair have "and_then m f w = f x w'"
      by (simp add: and_then_def)
    with advances_trans [OF mw f [of w' x]] show ?thesis
      by simp
  qed
qed

lemma advances_GetServerByName: "advances w (snd (GetServerByName cl name w))"
  using advances_call [of w "ServersList name" "\<lambda>h. servers_list cl h name"]
  by (auto simp: GetServerByName_def split: prod.splits sum.splits option.splits)

lemma advances_GetServerByID: "advances w (snd (GetServerByID cl ident w))"
  using advances_call [of w "ServersGet ident" "\<lambda>h. servers_get cl h ident"]
  by (auto simp: GetServerByID_def split: prod.splits sum.splits)

lemma advances_GetNetworkIDByName: "advances w (snd (GetNetworkIDByName cl name w))"
  using advances_call [of w "NetworksList name" "\<lambda>h. networks_list cl h name"]
  by (auto simp: GetNetworkIDByName_def split: prod.splits sum.splits option.splits)

lemma advances_GetSubnetIDByName: "advances w (snd (GetSubnetIDByName cl name w))"
  using advances_call [of w "SubnetsList name" "\<lambda>h. subnets_list cl h name"]
  by (auto simp: GetSubnetIDByName_def split: prod.splits sum.splits option.splits)

lemma advances_getPortByID: "advances w (snd (getPortByID cl ident w))"
  using advances_call [of w "PortsGet ident" "\<lambda>h. ports_get cl h ident"]
  by (auto simp: getPortByID_def split: prod.splits sum.splits)

lemma advances_getFloatingIP:
  "advances w (snd (getFloatingIP cl floatingIP projectID nodepool reuse w))"
  using advances_call [of w "FloatingIPsList (fip_listOpts floatingIP projectID nodepool reuse)"
      "\<lambda>h. fips_list cl h (fip_listOpts floatingIP projectID nodepool reuse)"]
  by (auto simp: getFloatingIP_def split: prod.splits sum.splits option.splits)

lemma advances_createFloatingIP:
  "advances w (snd (createFloatingIP cl floatingIP floatingNetworkID subnetID projectID nodepool w))"
proof -
  let ?co = "fip_createOpts floatingIP floatingNetworkID subnetID projectID nodepool"
  obtain r w' where c: "call (FloatingIPsCreate ?co) (\<lambda>h. fips_create cl h ?co) w = (r, w')"
    by (cases "call (FloatingIPsCreate ?co) (\<lambda>h. fips_create cl h ?co) w")
  have a: "advances w w'"
    using advances_call [of w "FloatingIPsCreate ?co" "\<lambda>h. fips_create cl h ?co"] c by simp
  show ?thesis
  proof (cases r)
    case (Inl err)
    with c advances_trans [OF a advances_Inc [of w' MetricErrorCreateFIP]] show ?thesis
      by (simp add: createFloatingIP_def)
  next
    case (Inr fip)
    with c a show ?thesis
      by (simp add: createFloatingIP_def)
  qed
qed

lemma advances_GetOrCreateFloatingIP:
  "advances w
     (snd (GetOrCreateFloatingIP cl floatingIP floatingNetworkID subnetID projectID nodepool
             reuse w))"
proof -
  obtain r w' where g: "getFloatingIP cl floatingIP projectID nodepool reuse w = (r, w')"
    by (cases "getFloatingIP cl floatingIP projectID nodepool reuse w")
  have a: "advances w w'"
    using advances_getFloatingIP [of w cl floatingIP projectID nodepool reuse] g by simp
  show ?thesis
  proof (cases r)
    case (Inr fip)
    with g a show ?thesis
      by (simp add: GetOrCreateFloatingIP_def)
  next
    case (Inl err)
    with g a
      advances_trans [OF a
        advances_createFloatingIP [of w' cl floatingIP floatingNetworkID subnetID projectID
          nodepool]]
    show ?thesis
      by (simp add: GetOrCreateFloatingIP_def)
  qed
qed

lemma advances_associateInstanceAndFIP:
  "advances w (snd (associateInstanceAndFIP cl srv floatingIP w))"
proof -
  let ?uo = "\<lparr>update_FixedIP = floatingIP\<rparr>"
  obtain r w' where c:
    "call (FloatingIPsUpdate (server_ID srv) ?uo) (\<lambda>h. fips_update cl h (server_ID srv) ?uo) w
       = (r, w')"
    by (cases "call (FloatingIPsUpdate (server_ID srv) ?uo)
                 (\<lambda>h. fips_update cl h (server_ID srv) ?uo) w")
  have a: "advances w w'"
    using advances_call [of w "FloatingIPsUpdate (server_ID srv) ?uo"
        "\<lambda>h. fips_update cl h (server_ID srv) ?uo"] c by simp
  show ?thesis
  proof (cases r)
    case (Some err)
    with c advances_trans [OF a advances_Inc [of w' MetricErrorAssociateInstanceAndFIP]]
    show ?thesis
      by (simp add: associateInstanceAndFIP_def)
  next
    case None
    with c a show ?thesis
      by (simp add: associateInstanceAndFIP_def)
  qed
qed

lemma advances_EnsureAssociatedInstanceAndFIP:
  "advances w (snd (EnsureAssociatedInstanceAndFIP cl srv fip w))"
proof -
  obtain r w' where g: "getPortByID cl (fip_PortID fip) w = (r, w')"
    by (cases "getPortByID cl (fip_PortID fip) w")
  have a: "advances w w'"
    using advances_getPortByID [of w cl "fip_PortID fip"] g by simp
  show ?thesis
  proof (cases r)
    case (Inl err)
    with g a show ?thesis
      by (simp add: EnsureAssociatedInstanceAndFIP_def)
  next
    case (Inr port)
    with g a
      advances_trans [OF a advances_associateInstanceAndFIP [of w' cl srv "fip_FloatingIP fip"]]
    show ?thesis
      by (simp add: EnsureAssociatedInstanceAndFIP_def)
  qed
qed

lemma advances_getServer: "advances w (snd (getServer cl node w))"
proof (cases "getServerIDFromNode cl node")
  case None
  then show ?thesis
    by (simp add: getServer_def advances_GetServerByName)
next
  case (Some serverID)
  obtain r w' where g: "GetServerByID cl serverID w = (r, w')"
    by (cases "GetServerByID cl serverID w")
  have a: "advances w w'"
    using advances_GetServerByID [of w cl serverID] g by simp
  show ?thesis
  proof (cases r)
    case (Inr srv)
    with Some g a show ?thesis
      by (simp add: getServer_def)
  next
    case (Inl err)
    with Some g advances_trans [OF a advances_GetServerByName [of w' cl "node_name node"]]
    show ?thesis
      by (simp add: getServer_def)
  qed
qed

lemma advances_GetNodeFromIndexerByKey: "advances w (snd (GetNodeFromIndexerByKey cl key w))"
  using advances_call [of w "IndexerGet key" "\<lambda>h. indexer_get cl h key"]
  by (auto simp: GetNodeFromIndexerByKey_def split: prod.splits sum.splits)

lemma advances_AddLabelsToNode: "advances w (snd (AddLabelsToNode cl node labels w))"
  using advances_call [of w "NodeAddLabels (node_name node) labels"
      "\<lambda>h. node_add_labels cl h node labels"]
  by (auto simp: AddLabelsToNode_def split: prod.splits option.splits)

lemma advances_syncNode: "advances w (snd (syncNode cl o' node w))"
  unfolding syncNode_def
  by (intro advances_and_then advances_GetNetworkIDByName advances_GetSubnetIDByName
      advances_getServer advances_GetOrCreateFloatingIP advances_AddLabelsToNode
      advances_EnsureAssociatedInstanceAndFIP)

lemma advances_syncHandler: "advances w (snd (syncHandler cl o' key w))"
proof -
  obtain r w' where g: "GetNodeFromIndexerByKey cl key w = (r, w')"
    by (cases "GetNodeFromIndexerByKey cl key w")
  have a: "advances w w'"
    using advances_GetNodeFromIndexerByKey [of w cl key] g by simp
  show ?thesis
  proof (cases r)
    case (Inl err)
    with g a show ?thesis
      by (simp add: syncHandler_def)
  next
    case (Inr found)
    show ?thesis
    proof (cases found)
      case None
      with Inr g a show ?thesis
        by (simp add: syncHandler_def)
    next
      case (Some node)
      have s: "advances w (snd (syncNode cl o' node w'))"
        by (rule advances_trans [OF a advances_syncNode])
      from Some Inr g a s show ?thesis
        by (auto simp: syncHandler_def split: option.splits prod.splits sum.splits)
    qed
  qed
qed

subsection \<open>The counters\<close>

lemma metrics_AddRateLimited: "metrics (AddRateLimited key w) = metrics w"
  by (simp add: AddRateLimited_def)

lemma metrics_Forget: "metrics (Forget key w) = metrics w"
  by (simp add: Forget_def)

lemma metrics_Inc_le: "metrics w n \<le> metrics (Inc c w) n"
  by (simp add: Inc_def)

lemma metrics_handleError: "metrics w n \<le> metrics (handleError err key w) n"
  by (cases err) (simp_all add: metrics_AddRateLimited metrics_Forget metrics_Inc_le)

lemma metrics_enqueueItem: "metrics (enqueueItem ob w) = metrics w"
  by (simp add: enqueueItem_def metrics_AddRateLimited split: sum.splits)

lemma metrics_fold_enqueueItem: "metrics (fold enqueueItem objs w) = metrics w"
  by (induction objs arbitrary: w) (simp_all add: metrics_enqueueItem)

lemma metrics_enqueueAllItems: "metrics (enqueueAllItems cl w) = metrics w"
  by (simp add: enqueueAllItems_def call_def metrics_fold_enqueueItem)

lemma metrics_onUpdate: "metrics (onUpdate ol nw w) = metrics w"
  by (simp add: onUpdate_def metrics_enqueueItem)

lemma metrics_processNextItem: "metrics w n \<le> metrics (processNextItem cl o' key w) n"
proof -
  obtain err w' where s: "syncHandler cl o' key w = (err, w')"
    by (cases "syncHandler cl o' key w")
  have "advances w w'"
    using advances_syncHandler [of w cl o' key] s by simp
  then have "metrics w n \<le> metrics w' n"
    by (simp add: advances_def)
  also have "metrics w' n \<le> metrics (handleError err key w') n"
    by (rule metrics_handleError)
  finally show ?thesis
    by (simp add: processNextItem_def s)
qed

lemma metrics_controller_exec: "metrics w n \<le> metrics (controller_exec cl o' w st) n"
  by (cases st)
     (simp_all add: metrics_enqueueItem metrics_onUpdate metrics_enqueueAllItems
        metrics_processNextItem)

lemma trace_hd: "trace cl o' steps w = w # tl (trace cl o' steps w)"
  by (cases steps) simp_all

lemma trace_above:
  "x \<in> set (trace cl o' steps w) \<Longrightarrow> metrics w n \<le> metrics x n"
proof (induction steps arbitrary: w)
  case Nil
  then show ?case by simp
next
  case (Cons st steps)
  from Cons.prems have "x = w \<or> x \<in> set (trace cl o' steps (controller_exec cl o' w st))"
    by simp
  then show ?case
  proof
    assume "x = w"
    then show ?thesis by simp
  next
    assume "x \<in> set (trace cl o' steps (controller_exec cl o' w st))"
    then have "metrics (controller_exec cl o' w st) n \<le> metrics x n"
      by (rule Cons.IH)
    with metrics_controller_exec [of w n cl o' st] show ?thesis
      by (rule order_trans)
  qed
qed

lemma trace_sorted: "sorted (map (\<lambda>x. metrics x n) (trace cl o' steps w))"
proof (induction steps arbitrary: w)
  case Nil
  then show ?case by simp
next
  case (Cons st steps)
  show ?case
    using Cons.IH [of "controller_exec cl o' w st"]
      trace_above [of _ cl o' steps "controller_exec cl o' w st" n]
      metrics_controller_exec [of w n cl o' st]
    by (auto intro: order_trans)
qed

text \<open>
  C6. Whatever the cluster and the cloud answer, no step of the controller (an informer
  event, a tick, a worker processing a key with \<open>syncHandler\<close> and \<open>handleError\<close>)
  lowers the value of any counter, the four of pkg/metrics among them; a successful
  sync raises \<open>successful_operations_total\<close> by one and a failed one
  \<open>failed_operations_total\<close>; and over any execution, from any state, the values a
  counter takes are non-decreasing.
\<close>

theorem counters_monotonic:
  "metrics w n \<le> metrics (controller_exec cl o' w st) n \<and>
   metrics w n \<le> metrics (snd (syncHandler cl o' key w)) n \<and>
   metrics w n \<le> metrics (handleError err key w) n \<and>
   metrics (handleError None key w) (fqName MetricSuccessfulOperations) =
     metrics w (fqName MetricSuccessfulOperations) + 1 \<and>
   metrics (handleError (Some e) key w) (fqName MetricFailedOperations) =
     metrics w (fqName MetricFailedOperations) + 1 \<and>
   sorted (map (\<lambda>x. metrics x n) (trace cl o' steps w))"
proof (intro conjI)
  show "metrics w n \<le> metrics (controller_exec cl o' w st) n"
    by (rule metrics_controller_exec)
  show "metrics w n \<le> metrics (snd (syncHandler cl o' key w)) n"
    using advances_syncHandler [of w cl o' key] by (simp add: advances_def)
  show "metrics w n \<le> metrics (handleError err key w) n"
    by (rule metrics_handleError)
  show "metrics (handleError None key w) (fqName MetricSuccessfulOperations) =
     metrics w (fqName MetricSuccessfulOperations) + 1"
    by (simp add: metrics_Forget Inc_def)
  show "metrics (handleError (Some e) key w) (fqName MetricFailedOperations) =
     metrics w (fqName MetricFailedOperations) + 1"
    by (simp add: metrics_Forget metrics_AddRateLimited Inc_def)
  show "sorted (map (\<lambda>x. metrics x n) (trace cl o' steps w))"
    by (rule trace_sorted)
qed

subsection \<open>Finding or creating a floating IP\<close>

text \<open>
  C8. An invocation of \<open>GetOrCreateFloatingIP\<close> sends the cloud one listing and after
  it at most one create request: none when the listing fails or the loop finds an
  entry, exactly one when the loop finds none, and that one on the given network and
  subnet, in the given project, with the requested address (empty or not) as the
  floating IP. The result is the entry found, or what the creation answers.
\<close>

theorem GetOrCreateFloatingIP_creates_at_most_once:
  "requests
     (snd (GetOrCreateFloatingIP cl floatingIP floatingNetworkID subnetID projectID nodepool
             reuse w)) =
     requests w @
     FloatingIPsList (fip_listOpts floatingIP projectID nodepool reuse) #
     (case fips_list cl (requests w) (fip_listOpts floatingIP projectID nodepool reuse) of
        Inl err \<Rightarrow> []
      | Inr allFIPs \<Rightarrow>
          (case first_fip floatingIP nodepool reuse allFIPs of
             Some fip \<Rightarrow> []
           | None \<Rightarrow>
               [FloatingIPsCreate
                  \<lparr>create_FloatingNetworkID = floatingNetworkID, create_SubnetID = subnetID,
                   create_FloatingIP = floatingIP, create_ProjectID = projectID,
                   create_Description =
                     (if nodepool \<noteq> '''' then createFIPDescriptionNodepool nodepool
                      else createFIPDescription)\<rparr>])) \<and>
   length (filter is_create
     (requests
        (snd (GetOrCreateFloatingIP cl floatingIP floatingNetworkID subnetID projectID nodepool
                reuse w)))) \<le>
     Suc (length (filter is_create (requests w))) \<and>
   fst (GetOrCreateFloatingIP cl floatingIP floatingNetworkID subnetID projectID nodepool
          reuse w) =
     (case fips_list cl (requests w) (fip_listOpts floatingIP projectID nodepool reuse) of
        Inl err \<Rightarrow> Inl (Error err)
      | Inr allFIPs \<Rightarrow>
          (case first_fip floatingIP nodepool reuse allFIPs of
             Some fip \<Rightarrow> Inr fip
           | None \<Rightarrow>
               (case fips_create cl
                       (requests w @
                        [FloatingIPsList (fip_listOpts floatingIP projectID nodepool reuse)])
                       (fip_createOpts floatingIP floatingNetworkID subnetID projectID nodepool) of
                  Inl err \<Rightarrow> Inl (Error err)
                | Inr fip \<Rightarrow> Inr fip)))"
  by (simp add: GetOrCreateFloatingIP_def getFloatingIP_def createFloatingIP_def call_def
      IsFIPNotFound_def Inc_def fip_createOpts_def split: sum.splits option.splits)

subsection \<open>The queue's delays\<close>






































end
